theory Spec2Isabelle
  imports Complex_Main
begin

section \<open>Python strings\<close>

text \<open>
  A \<open>string\<close> stands for a Python \<open>str\<close> all of whose code points are below 256, one
  \<open>char\<close> per code point.  The helpers below are the \<open>str\<close> methods the services use.
\<close>

definition isspace :: "char \<Rightarrow> bool" where
  \<comment> \<open>\<open>str.isspace\<close> on one code point below 256\<close>
  "isspace c \<longleftrightarrow> c \<in> {CHR 0x09, CHR 0x0A, CHR 0x0B, CHR 0x0C, CHR 0x0D,
                         CHR 0x1C, CHR 0x1D, CHR 0x1E, CHR 0x1F, CHR 0x20, CHR 0x85, CHR 0xA0}"

definition lstrip :: "string \<Rightarrow> string" where
  "lstrip s = dropWhile isspace s"

definition rstrip :: "string \<Rightarrow> string" where
  "rstrip s = rev (dropWhile isspace (rev s))"

definition strip :: "string \<Rightarrow> string" where
  \<comment> \<open>\<open>s.strip()\<close>\<close>
  "strip s = rstrip (lstrip s)"

definition rstrip_char :: "char \<Rightarrow> string \<Rightarrow> string" where
  \<comment> \<open>\<open>s.rstrip(c)\<close> for a one-character argument\<close>
  "rstrip_char c s = rev (dropWhile (\<lambda>x. x = c) (rev s))"

fun split_on :: "char \<Rightarrow> string \<Rightarrow> string list" where
  \<comment> \<open>\<open>s.split(c)\<close> for a one-character separator: never empty, \<open>''.split(c) == ['']\<close>\<close>
  "split_on c [] = [[]]"
| "split_on c (x # xs) =
     (if x = c then [] # split_on c xs
      else (case split_on c xs of
              [] \<Rightarrow> [[x]]
            | y # ys \<Rightarrow> (x # y) # ys))"

definition startswith :: "string \<Rightarrow> string \<Rightarrow> bool" where
  "startswith s p \<longleftrightarrow> take (length p) s = p"

fun join :: "string \<Rightarrow> string list \<Rightarrow> string" where
  \<comment> \<open>\<open>sep.join(xs)\<close>\<close>
  "join sep [] = []"
| "join sep [x] = x"
| "join sep (x # y # ys) = x @ sep @ join sep (y # ys)"

definition index_opt :: "'a list \<Rightarrow> nat \<Rightarrow> 'a option" where
  \<comment> \<open>\<open>xs[i]\<close> for \<open>i \<ge> 0\<close>; \<open>None\<close> is Python's IndexError\<close>
  "index_opt xs i = (if i < length xs then Some (xs ! i) else None)"

definition upper_chars :: string where
  \<comment> \<open>the code points below 256 that \<open>str.lower\<close> changes: A-Z and the Latin-1 capitals\<close>
  "upper_chars = ''ABCDEFGHIJKLMNOPQRSTUVWXYZ'' @
     [CHR 0xC0, CHR 0xC1, CHR 0xC2, CHR 0xC3, CHR 0xC4, CHR 0xC5, CHR 0xC6, CHR 0xC7,
      CHR 0xC8, CHR 0xC9, CHR 0xCA, CHR 0xCB, CHR 0xCC, CHR 0xCD, CHR 0xCE, CHR 0xCF,
      CHR 0xD0, CHR 0xD1, CHR 0xD2, CHR 0xD3, CHR 0xD4, CHR 0xD5, CHR 0xD6,
      CHR 0xD8, CHR 0xD9, CHR 0xDA, CHR 0xDB, CHR 0xDC, CHR 0xDD, CHR 0xDE]"

definition lower_chars :: string where
  \<comment> \<open>their images, each 32 code points higher\<close>
  "lower_chars = ''abcdefghijklmnopqrstuvwxyz'' @
     [CHR 0xE0, CHR 0xE1, CHR 0xE2, CHR 0xE3, CHR 0xE4, CHR 0xE5, CHR 0xE6, CHR 0xE7,
      CHR 0xE8, CHR 0xE9, CHR 0xEA, CHR 0xEB, CHR 0xEC, CHR 0xED, CHR 0xEE, CHR 0xEF,
      CHR 0xF0, CHR 0xF1, CHR 0xF2, CHR 0xF3, CHR 0xF4, CHR 0xF5, CHR 0xF6,
      CHR 0xF8, CHR 0xF9, CHR 0xFA, CHR 0xFB, CHR 0xFC, CHR 0xFD, CHR 0xFE]"

definition lower_char :: "char \<Rightarrow> char" where
  \<comment> \<open>\<open>str.lower\<close> on one code point below 256\<close>
  "lower_char c =
     (case map_of (zip upper_chars lower_chars) c of
        None \<Rightarrow> c
      | Some l \<Rightarrow> l)"

definition lower :: "string \<Rightarrow> string" where
  "lower s = map lower_char s"

fun contains :: "string \<Rightarrow> string \<Rightarrow> bool" where
  \<comment> \<open>\<open>sub in s\<close>\<close>
  "contains [] sub = (sub = [])"
| "contains (x # xs) sub = (startswith (x # xs) sub \<or> contains xs sub)"

section \<open>Python's \<open>float(str)\<close>\<close>

text \<open>
  \<open>float\<close> applied to a \<open>str\<close>: surrounding white space is dropped, underscores are
  accepted between digits only, and the rest is an optional sign followed by
  \<open>inf\<close>, \<open>infinity\<close>, \<open>nan\<close> (any case) or a decimal literal with optional fraction
  and exponent.  \<open>None\<close> is the \<open>ValueError\<close>.  The value of a decimal literal is kept
  as the exact rational; rounding to binary64, overflow to infinity and the sign of
  zero are outside this model.
\<close>

datatype pyfloat = Finite rat | PosInf | NegInf | NaN

definition float_space :: "char \<Rightarrow> bool" where
  \<comment> \<open>the white space \<open>float\<close> itself removes: non-ASCII spaces are first turned into
      blanks, then the C-locale spaces are skipped\<close>
  "float_space c \<longleftrightarrow> c \<in> {CHR 0x09, CHR 0x0A, CHR 0x0B, CHR 0x0C, CHR 0x0D,
                             CHR 0x20, CHR 0x85, CHR 0xA0}"

definition is_digit :: "char \<Rightarrow> bool" where
  "is_digit c \<longleftrightarrow> c \<in> set ''0123456789''"

definition digit_val :: "char \<Rightarrow> nat" where
  "digit_val c = of_char c - 48"

definition digits_val :: "string \<Rightarrow> nat" where
  "digits_val ds = foldl (\<lambda>a c. 10 * a + digit_val c) 0 ds"

fun strip_underscores :: "char \<Rightarrow> string \<Rightarrow> string option" where
  \<comment> \<open>first argument: the previous character (NUL at the start)\<close>
  "strip_underscores prev [] = (if prev = CHR ''_'' then None else Some [])"
| "strip_underscores prev (c # cs) =
     (if c = CHR ''_'' then
        (if is_digit prev then strip_underscores c cs else None)
      else if prev = CHR ''_'' \<and> \<not> is_digit c then None
      else map_option (Cons c) (strip_underscores c cs))"

definition split_sign :: "string \<Rightarrow> bool \<times> string" where
  \<comment> \<open>an optional leading sign; the flag says "negative"\<close>
  "split_sign s =
     (case s of
        [] \<Rightarrow> (False, [])
      | c # cs \<Rightarrow> if c = CHR ''-'' then (True, cs)
                  else if c = CHR ''+'' then (False, cs)
                  else (False, s))"

definition scale10 :: "bool \<Rightarrow> nat \<Rightarrow> int \<Rightarrow> rat" where
  "scale10 neg m e =
     (let v = (if 0 \<le> e then of_nat m * 10 ^ nat e else of_nat m / 10 ^ nat (- e))
      in if neg then - v else v)"

definition parse_decimal :: "bool \<Rightarrow> string \<Rightarrow> pyfloat option" where
  "parse_decimal neg s =
     (let ip = takeWhile is_digit s; r1 = dropWhile is_digit s;
          has_dot = (r1 \<noteq> [] \<and> hd r1 = CHR ''.'');
          fp = (if has_dot then takeWhile is_digit (tl r1) else []);
          r2 = (if has_dot then dropWhile is_digit (tl r1) else r1)
      in if ip = [] \<and> fp = [] then None
         else if r2 = [] then
           Some (Finite (scale10 neg (digits_val (ip @ fp)) (- int (length fp))))
         else if hd r2 = CHR ''e'' \<or> hd r2 = CHR ''E'' then
           (let (eneg, r3) = split_sign (tl r2);
                ed = takeWhile is_digit r3; r4 = dropWhile is_digit r3
            in if ed = [] \<or> r4 \<noteq> [] then None
               else Some (Finite (scale10 neg (digits_val (ip @ fp))
                      ((if eneg then - int (digits_val ed) else int (digits_val ed))
                        - int (length fp)))))
         else None)"

definition parse_float_ascii :: "string \<Rightarrow> pyfloat option" where
  "parse_float_ascii t =
     (let (neg, r) = split_sign t; l = lower r
      in if l = ''inf'' \<or> l = ''infinity'' then Some (if neg then NegInf else PosInf)
         else if l = ''nan'' then Some NaN
         else parse_decimal neg r)"

definition py_float :: "string \<Rightarrow> pyfloat option" where
  "py_float s0 =
     (let s = rev (dropWhile float_space (rev (dropWhile float_space s0)))
      in if CHR ''_'' \<in> set s then
           (case strip_underscores (CHR 0x00) s of
              None \<Rightarrow> None
            | Some t \<Rightarrow> parse_float_ascii t)
         else parse_float_ascii s)"

section \<open>Exceptions\<close>

text \<open>
  The exception classes the services distinguish, each with the text \<open>str(e)\<close> gives.
  \<open>HTTPStatusError\<close> also carries the status code and body of its response.
  \<open>RuntimeError\<close> includes its subclasses, \<open>RequestError\<close> the httpx transport errors
  other than \<open>ConnectError\<close>.
\<close>

datatype exn =
    RuntimeError string
  | ImportError string
  | ConnectError string
  | RequestError string
  | HTTPStatusError nat string string
  | IndexError string
  | TypeError string
  | AttributeError string
  | OtherError string

fun str_exn :: "exn \<Rightarrow> string" where
  "str_exn (RuntimeError m) = m"
| "str_exn (ImportError m) = m"
| "str_exn (ConnectError m) = m"
| "str_exn (RequestError m) = m"
| "str_exn (HTTPStatusError code body m) = m"
| "str_exn (IndexError m) = m"
| "str_exn (TypeError m) = m"
| "str_exn (AttributeError m) = m"
| "str_exn (OtherError m) = m"

definition no_strip_attribute :: string where
  \<comment> \<open>the AttributeError of \<open>None.strip()\<close>\<close>
  "no_strip_attribute =
     [CHR 0x27] @ ''NoneType'' @ [CHR 0x27] @ '' object has no attribute '' @
     [CHR 0x27] @ ''strip'' @ [CHR 0x27]"

section \<open>The judge-response parser (\<open>benchmark_service.parse_judge_response\<close>)\<close>

record judge_result =
  score_a :: "pyfloat option"
  score_b :: "pyfloat option"
  winner :: "string option"
  reasoning :: "string option"

text \<open>The loop's variables: the \<open>result\<close> dictionary, \<open>reasoning_lines\<close>, \<open>in_reasoning\<close>.\<close>

record judge_state =
  result :: judge_result
  reasoning_lines :: "string list"
  in_reasoning :: bool

definition judge_init :: judge_state where
  "judge_init =
     \<lparr>result = \<lparr>score_a = None, score_b = None, winner = None, reasoning = None\<rparr>,
      reasoning_lines = [], in_reasoning = False\<rparr>"

definition judge_step :: "judge_state \<Rightarrow> string \<Rightarrow> exn + judge_state" where
  \<comment> \<open>one iteration of \<open>for line in lines\<close>; the bare \<open>except: pass\<close> around the two
      score assignments swallows both the IndexError and the ValueError\<close>
  "judge_step st raw =
     (let line = strip raw in
      if startswith line ''SCORE_A:'' then
        (case index_opt (split_on (CHR '':'') line) 1 of
           None \<Rightarrow> Inr st
         | Some v \<Rightarrow>
             (case py_float (strip v) of
                None \<Rightarrow> Inr st
              | Some f \<Rightarrow> Inr (st\<lparr>result := (result st)\<lparr>score_a := Some f\<rparr>\<rparr>)))
      else if startswith line ''SCORE_B:'' then
        (case index_opt (split_on (CHR '':'') line) 1 of
           None \<Rightarrow> Inr st
         | Some v \<Rightarrow>
             (case py_float (strip v) of
                None \<Rightarrow> Inr st
              | Some f \<Rightarrow> Inr (st\<lparr>result := (result st)\<lparr>score_b := Some f\<rparr>\<rparr>)))
      else if startswith line ''WINNER:'' then
        (case index_opt (split_on (CHR '':'') line) 1 of
           None \<Rightarrow> Inl (IndexError ''list index out of range'')
         | Some v \<Rightarrow> Inr (st\<lparr>result := (result st)\<lparr>winner := Some (strip v)\<rparr>\<rparr>))
      else if startswith line ''REASONING:'' then
        (let reasoning_text = strip (join '':'' (drop 1 (split_on (CHR '':'') line)))
         in Inr (st\<lparr>in_reasoning := True,
                    reasoning_lines :=
                      (if reasoning_text \<noteq> [] then reasoning_lines st @ [reasoning_text]
                       else reasoning_lines st)\<rparr>))
      else if in_reasoning st then
        Inr (st\<lparr>reasoning_lines := reasoning_lines st @ [line]\<rparr>)
      else Inr st)"

fun judge_loop :: "judge_state \<Rightarrow> string list \<Rightarrow> exn + judge_state" where
  "judge_loop st [] = Inr st"
| "judge_loop st (l # ls) =
     (case judge_step st l of
        Inl e \<Rightarrow> Inl e
      | Inr st' \<Rightarrow> judge_loop st' ls)"

definition parse_judge_response :: "string \<Rightarrow> exn + judge_result" where
  "parse_judge_response response =
     (case judge_loop judge_init (split_on (CHR 0x0A) (strip response)) of
        Inl e \<Rightarrow> Inl e
      | Inr st \<Rightarrow>
          Inr ((result st)\<lparr>reasoning :=
                 (if reasoning_lines st \<noteq> [] then Some (join '' '' (reasoning_lines st))
                  else None)\<rparr>))"

section \<open>Configuration, the outside world and recorded effects\<close>

record settings =
  openai_api_key :: "string option"
  google_application_credentials :: "string option"
  google_gemini_api_key :: "string option"
  ollama_host :: string
  whisper_model_size :: string
  whisper_device :: string
  whisper_remote_url :: "string option"

definition truthy :: "string option \<Rightarrow> bool" where
  \<comment> \<open>Python truth of an optional string: neither \<open>None\<close> nor empty\<close>
  "truthy s \<longleftrightarrow> (case s of None \<Rightarrow> False | Some t \<Rightarrow> t \<noteq> [])"

definition fmt_opt :: "string option \<Rightarrow> string" where
  \<comment> \<open>an optional string inside an f-string\<close>
  "fmt_opt s = (case s of None \<Rightarrow> ''None'' | Some t \<Rightarrow> t)"

definition digit_char :: "nat \<Rightarrow> char" where
  "digit_char d = ''0123456789'' ! (d mod 10)"

function str_nat :: "nat \<Rightarrow> string" where
  \<comment> \<open>\<open>str(n)\<close> for \<open>n \<ge> 0\<close>\<close>
  "str_nat n = (if n < 10 then [digit_char n] else str_nat (n div 10) @ [digit_char (n mod 10)])"
  by pat_completeness auto
termination
  by (relation "measure id") auto

declare str_nat.simps [simp del]

record token_usage =
  input_tokens :: "int option"
  output_tokens :: "int option"

type_synonym gen_result = "bool \<times> string option \<times> token_usage option \<times> string option"

type_synonym tr_result = "bool \<times> string option \<times> string option"

text \<open>
  A field of a JSON body that holds a string when all is well: the key may be missing,
  its value may be \<open>null\<close>, or it is a string.  \<open>d.get(key, fallback)\<close> gives the fallback
  for a missing key only; a \<open>null\<close> comes back as \<open>None\<close>.
\<close>

datatype json_string = Absent | Null | Str string

definition get_str :: "json_string \<Rightarrow> string \<Rightarrow> string option" where
  "get_str v fallback =
     (case v of
        Absent \<Rightarrow> Some fallback
      | Null \<Rightarrow> None
      | Str s \<Rightarrow> Some s)"

text \<open>Requests sent to, and answers received from, the providers.\<close>

record openai_request =
  oa_model :: string
  oa_messages :: "(string \<times> string) list"
  oa_max_tokens :: int
  oa_temperature :: rat

record openai_response =
  oa_choices :: "string option list"
  oa_usage :: "(int \<times> int) option"

record gemini_request =
  gm_model_name :: string
  gm_temperature :: rat
  gm_max_output_tokens :: int
  gm_prompt :: string

record ollama_request =
  ol_model :: string
  ol_prompt :: string
  ol_stream :: bool
  ol_temperature :: rat
  ol_num_predict :: int
  ol_system :: "string option"

record ollama_json =
  ol_response :: json_string
  ol_prompt_eval_count :: "int option"
  ol_eval_count :: "int option"

record ollama_http =
  ol_status_code :: nat
  ol_json :: "exn + ollama_json"

record remote_form =
  rf_file :: "(string \<times> string \<times> string) option"
  rf_audio_url :: "string option"
  rf_model_size :: string
  rf_device :: string
  rf_language :: "string option"

record remote_json =
  rj_success :: bool
  rj_text :: json_string
  rj_error :: json_string

record remote_http =
  rh_status_code :: nat
  rh_text :: string
  rh_json :: "exn + remote_json"

datatype audio_encoding = MP3 | LINEAR16 | FLAC | ENCODING_UNSPECIFIED

datatype whisper_model = WhisperModel string string

text \<open>
  Every effect on the outside world is recorded, in order, in a trace.  The answers
  of the outside world are functions of the trace so far and of the request, so the
  same request may be answered differently at different times.
\<close>

datatype event =
    OpenAIChat openai_request
  | GeminiGenerate gemini_request
  | OllamaPost string ollama_request
  | WhisperLoad string string
  | RmTree string
  | WhisperTranscribe whisper_model string "string option"
  | OpenAITranscribe string "string option"
  | RemotePost string remote_form
  | SpeechRecognize bool audio_encoding "string option" string

record env =
  settings :: settings
  file_exists :: "event list \<Rightarrow> string \<Rightarrow> bool"
  file_size :: "event list \<Rightarrow> string \<Rightarrow> exn + nat"
  read_file :: "event list \<Rightarrow> string \<Rightarrow> exn + string"
  openai_installed :: bool
  genai_installed :: bool
  whisper_installed :: bool
  speech_installed :: bool
  openai_chat :: "event list \<Rightarrow> openai_request \<Rightarrow> exn + openai_response"
  gemini_generate :: "event list \<Rightarrow> gemini_request \<Rightarrow> exn + string option"
  ollama_post :: "event list \<Rightarrow> string \<Rightarrow> ollama_request \<Rightarrow> exn + ollama_http"
  cuda_available :: "event list \<Rightarrow> bool"
  whisper_load_model :: "event list \<Rightarrow> string \<Rightarrow> string \<Rightarrow> exn + whisper_model"
  whisper_cache_dir :: string
  rmtree :: "event list \<Rightarrow> string \<Rightarrow> exn option"
  whisper_transcribe ::
    "event list \<Rightarrow> whisper_model \<Rightarrow> string \<Rightarrow> string option \<Rightarrow> exn + string option"
  openai_transcribe :: "event list \<Rightarrow> string \<Rightarrow> string option \<Rightarrow> exn + string option"
  remote_post :: "event list \<Rightarrow> string \<Rightarrow> remote_form \<Rightarrow> exn + remote_http"
  speech_client :: "event list \<Rightarrow> exn option"
  speech_recognize ::
    "event list \<Rightarrow> bool \<Rightarrow> audio_encoding \<Rightarrow> string option \<Rightarrow> string \<Rightarrow> exn + string list list"

text \<open>
  The process state: the trace and the two module globals \<open>_model\<close>, \<open>_model_size\<close> of
  \<open>whisper_local\<close>.
\<close>

record world =
  trace :: "event list"
  g_model :: "whisper_model option"
  g_model_size :: "string option"

definition log_event :: "event \<Rightarrow> world \<Rightarrow> world" where
  "log_event ev w = w\<lparr>trace := trace w @ [ev]\<rparr>"

section \<open>LLM adapters and dispatcher (\<open>services/llm\<close>)\<close>

definition generate_with_openai ::
  "env \<Rightarrow> world \<Rightarrow> string \<Rightarrow> string \<Rightarrow> string option \<Rightarrow> int \<Rightarrow> rat \<Rightarrow> gen_result \<times> world" where
  "generate_with_openai E w prompt model system_prompt max_tokens temperature =
     (if \<not> truthy (openai_api_key (settings E)) then
        ((False, None, None, Some ''OpenAI API key not configured''), w)
      else if \<not> openai_installed E then
        ((False, None, None, Some ''OpenAI package not installed''), w)
      else
        (let messages =
               (case system_prompt of
                  None \<Rightarrow> []
                | Some sp \<Rightarrow> if sp \<noteq> [] then [(''system'', sp)] else [])
               @ [(''user'', prompt)];
             req = \<lparr>oa_model = model, oa_messages = messages,
                    oa_max_tokens = max_tokens, oa_temperature = temperature\<rparr>;
             w' = log_event (OpenAIChat req) w
         in case openai_chat E (trace w) req of
              Inl e \<Rightarrow> ((False, None, None, Some (str_exn e)), w')
            | Inr response \<Rightarrow>
                (let content = (case oa_choices response of [] \<Rightarrow> None | c # cs \<Rightarrow> c);
                     usage = \<lparr>input_tokens = map_option fst (oa_usage response),
                              output_tokens = map_option snd (oa_usage response)\<rparr>
                 in ((True, content, Some usage, None), w'))))"

definition generate_with_gemini ::
  "env \<Rightarrow> world \<Rightarrow> string \<Rightarrow> string \<Rightarrow> string option \<Rightarrow> int \<Rightarrow> rat \<Rightarrow> gen_result \<times> world" where
  "generate_with_gemini E w prompt model system_prompt max_tokens temperature =
     (if \<not> truthy (google_gemini_api_key (settings E)) then
        ((False, None, None, Some ''Google Gemini API key not configured''), w)
      else if \<not> genai_installed E then
        ((False, None, None, Some ''Google GenerativeAI package not installed''), w)
      else
        (let full_prompt =
               (case system_prompt of
                  None \<Rightarrow> prompt
                | Some sp \<Rightarrow> if sp \<noteq> [] then sp @ [CHR 0x0A, CHR 0x0A] @ prompt else prompt);
             req = \<lparr>gm_model_name = model, gm_temperature = temperature,
                    gm_max_output_tokens = max_tokens, gm_prompt = full_prompt\<rparr>;
             w' = log_event (GeminiGenerate req) w
         in case gemini_generate E (trace w) req of
              Inl e \<Rightarrow> ((False, None, None, Some (str_exn e)), w')
            | Inr response_text \<Rightarrow>
                (let content = (if truthy response_text then response_text else None);
                     usage = \<lparr>input_tokens = None, output_tokens = None\<rparr>
                 in ((True, content, Some usage, None), w'))))"

definition generate_with_ollama ::
  "env \<Rightarrow> world \<Rightarrow> string \<Rightarrow> string \<Rightarrow> string option \<Rightarrow> int \<Rightarrow> rat \<Rightarrow> gen_result \<times> world" where
  "generate_with_ollama E w prompt model system_prompt max_tokens temperature =
     (let host = rstrip_char (CHR ''/'') (ollama_host (settings E));
          request_data =
            \<lparr>ol_model = model, ol_prompt = prompt, ol_stream = False,
             ol_temperature = temperature, ol_num_predict = max_tokens,
             ol_system = (if truthy system_prompt then system_prompt else None)\<rparr>;
          url = host @ ''/api/generate'';
          w' = log_event (OllamaPost url request_data) w
      in case ollama_post E (trace w) url request_data of
           Inl (ConnectError m) \<Rightarrow>
             ((False, None, None,
               Some (''Could not connect to Ollama at '' @ ollama_host (settings E))), w')
         | Inl e \<Rightarrow> ((False, None, None, Some (str_exn e)), w')
         | Inr response \<Rightarrow>
             if ol_status_code response \<noteq> 200 then
               ((False, None, None,
                 Some (''Ollama returned status '' @ str_nat (ol_status_code response))), w')
             else
               (case ol_json response of
                  Inl (ConnectError m) \<Rightarrow>
                    ((False, None, None,
                      Some (''Could not connect to Ollama at '' @ ollama_host (settings E))), w')
                | Inl e \<Rightarrow> ((False, None, None, Some (str_exn e)), w')
                | Inr data \<Rightarrow>
                    (let content = get_str (ol_response data) [];
                         usage = \<lparr>input_tokens = ol_prompt_eval_count data,
                                  output_tokens = ol_eval_count data\<rparr>
                     in ((True, content, Some usage, None), w'))))"

record llm_model_config =
  llm_backend :: string
  llm_model :: string

definition LLM_MODELS :: "string \<rightharpoonup> llm_model_config" where
  "LLM_MODELS = map_of
     [(''gpt-4'', \<lparr>llm_backend = ''openai'', llm_model = ''gpt-4''\<rparr>),
      (''gpt-4-turbo'', \<lparr>llm_backend = ''openai'', llm_model = ''gpt-4-turbo''\<rparr>),
      (''gpt-3.5-turbo'', \<lparr>llm_backend = ''openai'', llm_model = ''gpt-3.5-turbo''\<rparr>),
      (''gemini-pro'', \<lparr>llm_backend = ''gemini'', llm_model = ''gemini-pro''\<rparr>),
      (''gemini-1.5-pro'', \<lparr>llm_backend = ''gemini'', llm_model = ''gemini-1.5-pro''\<rparr>),
      (''llama2'', \<lparr>llm_backend = ''ollama'', llm_model = ''llama2''\<rparr>),
      (''llama2:13b'', \<lparr>llm_backend = ''ollama'', llm_model = ''llama2:13b''\<rparr>),
      (''mistral'', \<lparr>llm_backend = ''ollama'', llm_model = ''mistral''\<rparr>),
      (''mixtral'', \<lparr>llm_backend = ''ollama'', llm_model = ''mixtral''\<rparr>),
      (''codellama'', \<lparr>llm_backend = ''ollama'', llm_model = ''codellama''\<rparr>)]"

definition generate ::
  "env \<Rightarrow> world \<Rightarrow> string \<Rightarrow> string \<Rightarrow> string option \<Rightarrow> int \<Rightarrow> rat \<Rightarrow> gen_result \<times> world" where
  "generate E w prompt model system_prompt max_tokens temperature =
     (case LLM_MODELS model of
        None \<Rightarrow> generate_with_ollama E w prompt model system_prompt max_tokens temperature
      | Some model_config \<Rightarrow>
          (let backend = llm_backend model_config; actual_model = llm_model model_config
           in if backend = ''openai'' then
                generate_with_openai E w prompt actual_model system_prompt max_tokens temperature
              else if backend = ''gemini'' then
                generate_with_gemini E w prompt actual_model system_prompt max_tokens temperature
              else if backend = ''ollama'' then
                generate_with_ollama E w prompt actual_model system_prompt max_tokens temperature
              else ((False, None, None, Some (''Unknown backend: '' @ backend)), w)))"

section \<open>Paths (\<open>pathlib\<close>, POSIX flavour)\<close>

definition path_name :: "string \<Rightarrow> string" where
  \<comment> \<open>\<open>Path(p).name\<close>: the last component, empty components and \<open>.\<close> dropped\<close>
  "path_name p =
     (case filter (\<lambda>x. x \<noteq> [] \<and> x \<noteq> ''.'') (split_on (CHR ''/'') p) of
        [] \<Rightarrow> []
      | q # qs \<Rightarrow> last (q # qs))"

fun rfind :: "char \<Rightarrow> string \<Rightarrow> nat option" where
  \<comment> \<open>\<open>s.rfind(c)\<close>; \<open>None\<close> stands for \<open>-1\<close>\<close>
  "rfind c [] = None"
| "rfind c (x # xs) =
     (case rfind c xs of
        Some i \<Rightarrow> Some (Suc i)
      | None \<Rightarrow> if x = c then Some 0 else None)"

definition path_suffix :: "string \<Rightarrow> string" where
  \<comment> \<open>\<open>Path(p).suffix\<close>: from the last dot of the name, unless that dot is the first or
      the last character of the name\<close>
  "path_suffix p =
     (let name = path_name p
      in case rfind (CHR ''.'') name of
           None \<Rightarrow> []
         | Some i \<Rightarrow> if 0 < i \<and> i + 1 < length name then drop i name else [])"

section \<open>Transcription adapters (\<open>services/transcription\<close>)\<close>

definition load_failure :: "exn \<Rightarrow> exn" where
  \<comment> \<open>the two outer handlers of \<open>load_whisper_model\<close>\<close>
  "load_failure e =
     (case e of
        ImportError m \<Rightarrow> RuntimeError ''Whisper is not installed. Run: pip install openai-whisper''
      | _ \<Rightarrow> RuntimeError (''Failed to load Whisper model: '' @ str_exn e))"

definition retry_on_cpu :: "env \<Rightarrow> world \<Rightarrow> string \<Rightarrow> (exn + whisper_model) \<times> world" where
  \<comment> \<open>the handler of a GPU-related RuntimeError: clear \<open>~/.cache/whisper\<close> if it exists,
      then load once more on the CPU; whatever is raised here reaches the outer handlers\<close>
  "retry_on_cpu E w1 model_size =
     (let cache_dir = whisper_cache_dir E
      in if file_exists E (trace w1) cache_dir then
           (let w2 = log_event (RmTree cache_dir) w1
            in case rmtree E (trace w1) cache_dir of
                 Some e \<Rightarrow> (Inl (load_failure e), w2)
               | None \<Rightarrow>
                   (case whisper_load_model E (trace w2) model_size ''cpu'' of
                      Inr m \<Rightarrow>
                        (Inr m, (log_event (WhisperLoad model_size ''cpu'') w2)
                                  \<lparr>g_model := Some m, g_model_size := Some model_size\<rparr>)
                    | Inl e \<Rightarrow>
                        (Inl (load_failure e), log_event (WhisperLoad model_size ''cpu'') w2)))
         else
           (case whisper_load_model E (trace w1) model_size ''cpu'' of
              Inr m \<Rightarrow>
                (Inr m, (log_event (WhisperLoad model_size ''cpu'') w1)
                          \<lparr>g_model := Some m, g_model_size := Some model_size\<rparr>)
            | Inl e \<Rightarrow>
                (Inl (load_failure e), log_event (WhisperLoad model_size ''cpu'') w1)))"

definition choose_device :: "env \<Rightarrow> world \<Rightarrow> string" where
  \<comment> \<open>the device of the first load: the configured one, with \<open>gpu\<close> and \<open>cuda\<close> turned
      into \<open>cpu\<close> when CUDA is not available and into \<open>cuda\<close> when it is\<close>
  "choose_device E w =
     (let device = whisper_device (settings E)
      in if device = ''gpu'' \<or> device = ''cuda'' then
           (if \<not> cuda_available E (trace w) then ''cpu'' else ''cuda'')
         else device)"

definition load_fresh :: "env \<Rightarrow> world \<Rightarrow> string \<Rightarrow> (exn + whisper_model) \<times> world" where
  \<comment> \<open>the body of \<open>if _model is None or _model_size != model_size\<close>\<close>
  "load_fresh E w model_size =
     (if \<not> whisper_installed E then
        (Inl (load_failure (ImportError ''No module named whisper'')), w)
      else
        (let device = choose_device E w;
             w1 = log_event (WhisperLoad model_size device) w
         in case whisper_load_model E (trace w) model_size device of
              Inr m \<Rightarrow> (Inr m, w1\<lparr>g_model := Some m, g_model_size := Some model_size\<rparr>)
            | Inl (RuntimeError msg) \<Rightarrow>
                if contains (lower msg) ''gpu'' \<or> contains (lower msg) ''cuda'' then
                  retry_on_cpu E w1 model_size
                else (Inl (load_failure (RuntimeError msg)), w1)
            | Inl e \<Rightarrow> (Inl (load_failure e), w1)))"

definition load_whisper_model ::
  "env \<Rightarrow> world \<Rightarrow> string option \<Rightarrow> (exn + whisper_model) \<times> world" where
  "load_whisper_model E w model_size_arg =
     (let model_size = (case model_size_arg of
                          None \<Rightarrow> whisper_model_size (settings E)
                        | Some s \<Rightarrow> s)
      in case g_model w of
           None \<Rightarrow> load_fresh E w model_size
         | Some m \<Rightarrow>
             if g_model_size w \<noteq> Some model_size then load_fresh E w model_size
             else (Inr m, w))"

definition transcribe_with_whisper_local ::
  "env \<Rightarrow> world \<Rightarrow> string \<Rightarrow> string option \<Rightarrow> string option \<Rightarrow> tr_result \<times> world" where
  "transcribe_with_whisper_local E w audio_path model_size language =
     (if \<not> file_exists E (trace w) audio_path then
        ((False, None, Some (''Audio file not found: '' @ audio_path)), w)
      else
        (case load_whisper_model E w model_size of
           (Inl e, w1) \<Rightarrow> ((False, None, Some (str_exn e)), w1)
         | (Inr model, w1) \<Rightarrow>
             (let lang = (if truthy language then language else None);
                  w2 = log_event (WhisperTranscribe model audio_path lang) w1
              in case whisper_transcribe E (trace w1) model audio_path lang of
                   Inl e \<Rightarrow> ((False, None, Some (str_exn e)), w2)
                 | Inr result_text \<Rightarrow>
                     (let t = strip (case result_text of None \<Rightarrow> [] | Some r \<Rightarrow> r)
                      in if t = [] then
                           ((False, None, Some ''Transcription resulted in empty text''), w2)
                         else ((True, Some t, None), w2)))))"

definition transcribe_with_whisper_api ::
  "env \<Rightarrow> world \<Rightarrow> string \<Rightarrow> string option \<Rightarrow> tr_result \<times> world" where
  "transcribe_with_whisper_api E w audio_path language =
     (if \<not> truthy (openai_api_key (settings E)) then
        ((False, None, Some ''OpenAI API key not configured''), w)
      else if \<not> file_exists E (trace w) audio_path then
        ((False, None, Some ''Audio file not found''), w)
      else
        (case file_size E (trace w) audio_path of
           Inl e \<Rightarrow> ((False, None, Some (str_exn e)), w)
         | Inr sz \<Rightarrow>
             if sz > 25 * 1024 * 1024 then
               ((False, None, Some ''File too large for Whisper API (max 25MB)''), w)
             else if \<not> openai_installed E then
               ((False, None, Some ''OpenAI package not installed''), w)
             else
               (let lang = (if truthy language then language else None);
                    w1 = log_event (OpenAITranscribe audio_path lang) w
                in case openai_transcribe E (trace w) audio_path lang of
                     Inl e \<Rightarrow> ((False, None, Some (str_exn e)), w1)
                   | Inr transcript_text \<Rightarrow>
                       (let t = (if truthy transcript_text
                                 then strip (case transcript_text of None \<Rightarrow> [] | Some r \<Rightarrow> r)
                                 else [])
                        in if t = [] then
                             ((False, None, Some ''Transcription resulted in empty text''), w1)
                           else ((True, Some t, None), w1)))))"

definition remote_failure :: "exn \<Rightarrow> tr_result" where
  \<comment> \<open>the three handlers shared by both remote modes\<close>
  "remote_failure e =
     (case e of
        HTTPStatusError code body m \<Rightarrow>
          (False, None, Some (''HTTP error from Whisper server: '' @ str_nat code @ '' - '' @ body))
      | ConnectError m \<Rightarrow> (False, None, Some (''Connection error to Whisper server: '' @ m))
      | RequestError m \<Rightarrow> (False, None, Some (''Connection error to Whisper server: '' @ m))
      | _ \<Rightarrow> (False, None, Some (''Transcription failed: '' @ str_exn e)))"

definition remote_exchange :: "env \<Rightarrow> world \<Rightarrow> string \<Rightarrow> remote_form \<Rightarrow> tr_result \<times> world" where
  \<comment> \<open>the POST, \<open>raise_for_status\<close> (httpx raises for every status outside 200-299),
      the JSON body and the reading of its fields: the same statements in both remote
      modes.  A \<open>null\<close> error is returned as it is; a \<open>null\<close> text makes \<open>.strip()\<close> raise,
      which the last handler catches\<close>
  "remote_exchange E w url form =
     (let w1 = log_event (RemotePost url form) w
      in case remote_post E (trace w) url form of
           Inl e \<Rightarrow> (remote_failure e, w1)
         | Inr response \<Rightarrow>
             if \<not> (200 \<le> rh_status_code response \<and> rh_status_code response < 300) then
               (remote_failure (HTTPStatusError (rh_status_code response) (rh_text response) []), w1)
             else
               (case rh_json response of
                  Inl e \<Rightarrow> (remote_failure e, w1)
                | Inr res \<Rightarrow>
                    if \<not> rj_success res then
                      ((False, None, get_str (rj_error res) ''Transcription failed''), w1)
                    else
                      (case get_str (rj_text res) [] of
                         None \<Rightarrow> (remote_failure (AttributeError no_strip_attribute), w1)
                       | Some r \<Rightarrow>
                           (let t = strip r
                            in if t = [] then
                                 ((False, None, Some ''Transcription resulted in empty text''), w1)
                               else ((True, Some t, None), w1)))))"

definition transcribe_with_whisper_remote ::
  "env \<Rightarrow> world \<Rightarrow> string \<Rightarrow> string option \<Rightarrow> string option \<Rightarrow> tr_result \<times> world" where
  "transcribe_with_whisper_remote E w audio_path model_size_arg language =
     (case whisper_remote_url (settings E) of
        None \<Rightarrow> ((False, None, Some ''Whisper remote URL not configured''), w)
      | Some remote \<Rightarrow>
          if remote = [] then ((False, None, Some ''Whisper remote URL not configured''), w)
          else if \<not> file_exists E (trace w) audio_path then
            ((False, None, Some (''Audio file not found: '' @ audio_path)), w)
          else
            (let model_size = (case model_size_arg of
                                 None \<Rightarrow> whisper_model_size (settings E)
                               | Some s \<Rightarrow> s);
                 device = whisper_device (settings E)
             in case read_file E (trace w) audio_path of
                  Inl e \<Rightarrow> (remote_failure e, w)
                | Inr file_content \<Rightarrow>
                    (let form = \<lparr>rf_file = Some (path_name audio_path, file_content, ''audio/mpeg''),
                                 rf_audio_url = None, rf_model_size = model_size,
                                 rf_device = device,
                                 rf_language = (if truthy language then language else None)\<rparr>;
                         transcribe_url = rstrip_char (CHR ''/'') remote @ ''/transcribe''
                     in remote_exchange E w transcribe_url form)))"


definition encoding_of :: "string \<Rightarrow> audio_encoding" where
  "encoding_of extension =
     (if extension = ''.mp3'' then MP3
      else if extension = ''.wav'' then LINEAR16
      else if extension = ''.flac'' then FLAC
      else if extension = ''.m4a'' then MP3
      else ENCODING_UNSPECIFIED)"

definition transcribe_with_google_stt ::
  "env \<Rightarrow> world \<Rightarrow> string \<Rightarrow> string option \<Rightarrow> tr_result \<times> world" where
  "transcribe_with_google_stt E w audio_path language =
     (case google_application_credentials (settings E) of
        None \<Rightarrow> ((False, None, Some ''Google Cloud credentials not configured''), w)
      | Some creds_file \<Rightarrow>
          if creds_file = [] \<or> \<not> file_exists E (trace w) creds_file then
            ((False, None, Some ''Google Cloud credentials not configured''), w)
          else if \<not> file_exists E (trace w) audio_path then
            ((False, None, Some ''Audio file not found''), w)
          else if \<not> speech_installed E then
            ((False, None, Some ''Google Cloud Speech package not installed''), w)
          else
            (case speech_client E (trace w) of
               Some e \<Rightarrow> ((False, None, Some (str_exn e)), w)
             | None \<Rightarrow>
                 (case read_file E (trace w) audio_path of
                    Inl e \<Rightarrow> ((False, None, Some (str_exn e)), w)
                  | Inr content \<Rightarrow>
                      (let encoding = encoding_of (lower (path_suffix audio_path))
                       in case file_size E (trace w) audio_path of
                            Inl e \<Rightarrow> ((False, None, Some (str_exn e)), w)
                          | Inr sz \<Rightarrow>
                              (let long_running = (sz > 10 * 1024 * 1024);
                                   w1 = log_event
                                          (SpeechRecognize long_running encoding language content) w
                               in case speech_recognize E (trace w) long_running encoding
                                         language content of
                                    Inl e \<Rightarrow> ((False, None, Some (str_exn e)), w1)
                                  | Inr results \<Rightarrow>
                                      (let transcripts =
                                             map hd (filter (\<lambda>alts. alts \<noteq> []) results);
                                           t = strip (join '' '' transcripts)
                                       in if t = [] then
                                            ((False, None,
                                              Some ''Transcription resulted in empty text''), w1)
                                          else ((True, Some t, None), w1)))))))"

definition format_language_code :: "string \<Rightarrow> string" where
  "format_language_code lang =
     (case map_of [(''en'', ''en-US''), (''tr'', ''tr-TR''), (''de'', ''de-DE''),
                   (''fr'', ''fr-FR''), (''es'', ''es-ES''), (''it'', ''it-IT''),
                   (''ja'', ''ja-JP''), (''zh'', ''zh-CN'')] lang of
        None \<Rightarrow> lang
      | Some code \<Rightarrow> code)"

record transcription_model_config =
  tr_backend :: string
  tr_size :: "string option"

definition TRANSCRIPTION_MODELS :: "string \<rightharpoonup> transcription_model_config" where
  "TRANSCRIPTION_MODELS = map_of
     [(''whisper-tiny'', \<lparr>tr_backend = ''whisper_local'', tr_size = Some ''tiny''\<rparr>),
      (''whisper-base'', \<lparr>tr_backend = ''whisper_local'', tr_size = Some ''base''\<rparr>),
      (''whisper-small'', \<lparr>tr_backend = ''whisper_local'', tr_size = Some ''small''\<rparr>),
      (''whisper-medium'', \<lparr>tr_backend = ''whisper_local'', tr_size = Some ''medium''\<rparr>),
      (''whisper-large'', \<lparr>tr_backend = ''whisper_local'', tr_size = Some ''large''\<rparr>),
      (''whisper-api'', \<lparr>tr_backend = ''whisper_api'', tr_size = None\<rparr>),
      (''google-stt'', \<lparr>tr_backend = ''google_stt'', tr_size = None\<rparr>),
      (''whisper-remote-tiny'', \<lparr>tr_backend = ''whisper_remote'', tr_size = Some ''tiny''\<rparr>),
      (''whisper-remote-base'', \<lparr>tr_backend = ''whisper_remote'', tr_size = Some ''base''\<rparr>),
      (''whisper-remote-small'', \<lparr>tr_backend = ''whisper_remote'', tr_size = Some ''small''\<rparr>),
      (''whisper-remote-medium'', \<lparr>tr_backend = ''whisper_remote'', tr_size = Some ''medium''\<rparr>),
      (''whisper-remote-large'', \<lparr>tr_backend = ''whisper_remote'', tr_size = Some ''large''\<rparr>)]"

definition transcribe :: "env \<Rightarrow> world \<Rightarrow> string \<Rightarrow> string \<Rightarrow> string \<Rightarrow> tr_result \<times> world" where
  "transcribe E w audio_path model language =
     (case TRANSCRIPTION_MODELS model of
        None \<Rightarrow> ((False, None, Some (''Unknown model: '' @ model)), w)
      | Some model_config \<Rightarrow>
          (let backend = tr_backend model_config
           in if backend = ''whisper_local'' then
                (let model_size = (case tr_size model_config of None \<Rightarrow> ''base'' | Some s \<Rightarrow> s)
                 in transcribe_with_whisper_local E w audio_path (Some model_size) (Some language))
              else if backend = ''whisper_remote'' then
                (if \<not> truthy (whisper_remote_url (settings E)) then
                   ((False, None,
                     Some ''Whisper remote URL not configured. Set WHISPER_REMOTE_URL in .env''), w)
                 else
                   (let model_size = (case tr_size model_config of None \<Rightarrow> ''base'' | Some s \<Rightarrow> s)
                    in transcribe_with_whisper_remote E w audio_path (Some model_size)
                         (Some language)))
              else if backend = ''whisper_api'' then
                transcribe_with_whisper_api E w audio_path (Some language)
              else if backend = ''google_stt'' then
                (let lang_code = format_language_code language
                 in transcribe_with_google_stt E w audio_path (Some lang_code))
              else ((False, None, Some (''Unknown backend: '' @ backend)), w)))"

record file_result =
  res_path :: string
  res_success :: bool
  res_text :: "string option"
  res_error :: "string option"

definition is_audio :: "string \<Rightarrow> bool" where
  "is_audio p \<longleftrightarrow> lower (path_suffix p) \<in> set [''.mp3'', ''.wav'', ''.m4a'', ''.flac'', ''.ogg'']"

fun partition_paths :: "string list \<Rightarrow> string list \<Rightarrow> string list \<Rightarrow> string list \<times> string list" where
  \<comment> \<open>the loop filling \<open>audio_files\<close> and \<open>video_files\<close>\<close>
  "partition_paths audio_files video_files [] = (audio_files, video_files)"
| "partition_paths audio_files video_files (p # ps) =
     (if is_audio p then partition_paths (audio_files @ [p]) video_files ps
      else partition_paths audio_files (video_files @ [p]) ps)"

definition process_file :: "env \<Rightarrow> world \<Rightarrow> string \<Rightarrow> string \<Rightarrow> string \<Rightarrow> file_result \<times> world" where
  "process_file E w model language p =
     (case transcribe E w p model language of
        ((ok, t, err), w') \<Rightarrow>
          (\<lparr>res_path = p, res_success = ok, res_text = t, res_error = err\<rparr>, w'))"

fun gather :: "env \<Rightarrow> world \<Rightarrow> string \<Rightarrow> string \<Rightarrow> string list \<Rightarrow> file_result list \<times> world" where
  \<comment> \<open>\<open>asyncio.gather\<close> over the tasks: the results come in the order of the tasks.  The
      tasks are run here one after the other, in that order\<close>
  "gather E w model language [] = ([], w)"
| "gather E w model language (p # ps) =
     (case process_file E w model language p of
        (r, w1) \<Rightarrow>
          (case gather E w1 model language ps of
             (rs, w2) \<Rightarrow> (r # rs, w2)))"

definition transcribe_parallel ::
  "env \<Rightarrow> world \<Rightarrow> string list \<Rightarrow> string \<Rightarrow> string \<Rightarrow> bool \<Rightarrow> file_result list \<times> world" where
  "transcribe_parallel E w audio_paths model language prioritize_audio =
     (let sorted_paths =
            (if prioritize_audio then
               (case partition_paths [] [] audio_paths of
                  (audio_files, video_files) \<Rightarrow> audio_files @ video_files)
             else audio_paths)
      in gather E w model language sorted_paths)"

section \<open>Prompt templates (\<open>services/prompt_templates\<close>)\<close>

function replace :: "string \<Rightarrow> string \<Rightarrow> string \<Rightarrow> string" where
  \<comment> \<open>\<open>s.replace(old, new)\<close>: the occurrences of \<open>old\<close>, left to right, not overlapping\<close>
  "replace s old new =
     (if old = [] then new @ concat (map (\<lambda>c. c # new) s)
      else if s = [] then []
      else if startswith s old then new @ replace (drop (length old) s) old new
      else hd s # replace (tl s) old new)"
  by pat_completeness auto
termination
  by (relation "measure (\<lambda>(s, old, new). length s)") auto

declare replace.simps [simp del]

record prompt_template =
  tpl_name :: string
  tpl_description :: string
  tpl_system_prompt :: string
  tpl_user_prompt :: string

definition custom_template :: prompt_template where
  "custom_template =
     \<lparr>tpl_name = ''Custom Prompt'',
       tpl_description = ''Use your own custom prompt'',
       tpl_system_prompt =
         ''You are a helpful AI assistant.'',
       tpl_user_prompt =
         ''{custom_prompt}\<newline>\<newline>{transcription}''\<rparr>"

definition PROMPT_TEMPLATES :: "string \<rightharpoonup> prompt_template" where
  "PROMPT_TEMPLATES = map_of
     [(''summary'',
       \<lparr>tpl_name = ''Meeting Summary'',
       tpl_description = ''Generate a concise summary of the meeting'',
       tpl_system_prompt =
         ''You are an expert at summarizing meetings. Create clear, actionable summaries that capture the key points.'',
       tpl_user_prompt =
         ''Please summarize the following meeting transcription:\<newline>\<newline>{transcription}\<newline>\<newline>Provide:\<newline>1. Key Discussion Points (bullet points)\<newline>2. Decisions Made\<newline>3. Action Items (with owners if mentioned)\<newline>4. Next Steps''\<rparr>),
      (''email'',
       \<lparr>tpl_name = ''Partner Email (Meeting Notes)'',
       tpl_description = ''Create meeting notes email for partners'',
       tpl_system_prompt =
         ''You are a professional business communicator. Write clear, professional emails that summarize meeting outcomes.'',
       tpl_user_prompt =
         ''Based on the following meeting transcription, write a professional email to share meeting notes with partners/stakeholders:\<newline>\<newline>{transcription}\<newline>\<newline>The email should include:\<newline>- Subject line\<newline>- Brief greeting\<newline>- Meeting overview\<newline>- Key decisions and outcomes\<newline>- Action items\<newline>- Professional closing''\<rparr>),
      (''training'',
       \<lparr>tpl_name = ''Training Documentation'',
       tpl_description = ''Generate educational material from training meetings'',
       tpl_system_prompt =
         ''You are a technical writer creating educational documentation. Make the content clear, well-structured, and easy to follow.'',
       tpl_user_prompt =
         ''Convert the following training session transcription into structured educational documentation:\<newline>\<newline>{transcription}\<newline>\<newline>Create documentation that includes:\<newline>1. Overview/Introduction\<newline>2. Key Concepts Explained\<newline>3. Step-by-Step Instructions (if applicable)\<newline>4. Important Notes and Tips\<newline>5. Summary/Key Takeaways''\<rparr>),
      (''weekly'',
       \<lparr>tpl_name = ''Weekly Summary'',
       tpl_description = ''Aggregate multiple meetings into weekly summary'',
       tpl_system_prompt =
         ''You are creating executive summaries that consolidate multiple meetings into a coherent weekly overview.'',
       tpl_user_prompt =
         ''Combine the following meeting transcriptions into a comprehensive weekly summary:\<newline>\<newline>{transcription}\<newline>\<newline>Create a weekly summary that includes:\<newline>1. Week Overview\<newline>2. Key Accomplishments\<newline>3. Important Decisions Across Meetings\<newline>4. Combined Action Items\<newline>5. Upcoming Priorities\<newline>6. Notable Discussions/Concerns''\<rparr>),
      (''custom'', custom_template)]"

definition get_prompt_template :: "string \<Rightarrow> prompt_template option" where
  "get_prompt_template prompt_type = PROMPT_TEMPLATES prompt_type"

definition build_prompt ::
  "string \<Rightarrow> string \<Rightarrow> string option \<Rightarrow> string option \<Rightarrow> string option \<Rightarrow> string \<times> string" where
  "build_prompt prompt_type transcription custom_prompt persona_style template_content =
     (let template = (case get_prompt_template prompt_type of
                        None \<Rightarrow> custom_template
                      | Some t \<Rightarrow> t);
          system_prompt0 = tpl_system_prompt template;
          user_prompt0 = tpl_user_prompt template;
          user_prompt1 = replace user_prompt0 ''{transcription}'' transcription;
          user_prompt2 = (case custom_prompt of
                            None \<Rightarrow> user_prompt1
                          | Some cp \<Rightarrow> if cp \<noteq> [] then replace user_prompt1 ''{custom_prompt}'' cp
                                       else user_prompt1);
          system_prompt = (case persona_style of
                             None \<Rightarrow> system_prompt0
                           | Some ps \<Rightarrow>
                               if ps \<noteq> [] then
                                 system_prompt0 @ ''\<newline>\<newline>Writing Style Instructions:\<newline>'' @ ps
                               else system_prompt0);
          user_prompt = (case template_content of
                           None \<Rightarrow> user_prompt2
                         | Some tc \<Rightarrow>
                             if tc \<noteq> [] then
                               user_prompt2 @ ''\<newline>\<newline>Use this template structure:\<newline>'' @ tc
                             else user_prompt2)
      in (system_prompt, user_prompt))"

section \<open>Benchmarks with a judge model (\<open>services/benchmark_service\<close>)\<close>

definition JUDGE_SYSTEM_PROMPT :: string where
  "JUDGE_SYSTEM_PROMPT =
     ''You are an expert evaluator comparing the outputs of AI models. \<newline>Your task is to evaluate and score each output on a scale of 1-10 based on specific criteria.\<newline>Be objective and provide detailed reasoning for your scores.''"

definition TRANSCRIPTION_JUDGE_PROMPT :: "string \<Rightarrow> string \<Rightarrow> string \<Rightarrow> string \<Rightarrow> string" where
  \<comment> \<open>the template with its four fields filled in by \<open>format\<close>\<close>
  "TRANSCRIPTION_JUDGE_PROMPT model_a model_b output_a output_b =
      ''Compare these two transcriptions of the same audio:\<newline>\<newline>**Transcription A ('' @
      model_a @
      ''):**\<newline>'' @
      output_a @
      ''\<newline>\<newline>**Transcription B ('' @
      model_b @
      ''):**\<newline>'' @
      output_b @
      ''\<newline>\<newline>Evaluate each transcription on these criteria (1-10 scale):\<newline>1. **Accuracy**: How accurate is the transcription likely to be?\<newline>2. **Completeness**: Does it capture all the spoken content?\<newline>3. **Formatting**: Is it well-formatted and readable?\<newline>4. **Punctuation**: Is punctuation appropriate?\<newline>\<newline>Provide your response in this exact format:\<newline>SCORE_A: [number]\<newline>SCORE_B: [number]\<newline>WINNER: [A or B or TIE]\<newline>REASONING: [Your detailed analysis]''"

definition LLM_JUDGE_PROMPT :: "string \<Rightarrow> string \<Rightarrow> string \<Rightarrow> string \<Rightarrow> string \<Rightarrow> string" where
  "LLM_JUDGE_PROMPT prompt_type model_a model_b output_a output_b =
      ''Compare these two LLM outputs generated from the same input:\<newline>\<newline>**Task:** '' @
      prompt_type @
      ''\<newline>\<newline>**Output A ('' @
      model_a @
      ''):**\<newline>'' @
      output_a @
      ''\<newline>\<newline>**Output B ('' @
      model_b @
      ''):**\<newline>'' @
      output_b @
      ''\<newline>\<newline>Evaluate each output on these criteria (1-10 scale):\<newline>1. **Quality**: Overall quality of the response\<newline>2. **Relevance**: How well does it address the task?\<newline>3. **Clarity**: Is it clear and well-organized?\<newline>4. **Completeness**: Does it cover all necessary points?\<newline>5. **Style**: Is the writing style appropriate?\<newline>\<newline>Provide your response in this exact format:\<newline>SCORE_A: [number]\<newline>SCORE_B: [number]\<newline>WINNER: [A or B or TIE]\<newline>REASONING: [Your detailed analysis]''"

record benchmark_results =
  output_a :: string
  output_b :: string
  res_score_a :: "pyfloat option"
  res_score_b :: "pyfloat option"
  judge_reasoning :: "string option"

type_synonym benchmark_return = "bool \<times> benchmark_results option \<times> string option"

definition not_subscriptable :: string where
  \<comment> \<open>the TypeError of \<open>None[:3000]\<close>\<close>
  "not_subscriptable =
     [CHR 0x27] @ ''NoneType'' @ [CHR 0x27] @ '' object is not subscriptable''"

definition judge_outputs ::
  "env \<Rightarrow> world \<Rightarrow> string \<Rightarrow> string \<Rightarrow> string \<Rightarrow> string \<Rightarrow> benchmark_return \<times> world" where
  \<comment> \<open>from the judge call to the last \<open>return\<close>: the same statements in both benchmarks.
      A judge reply that is \<open>None\<close> makes \<open>response.strip()\<close> raise, which the
      benchmark's handler turns into a failure\<close>
  "judge_outputs E w judge_prompt judge_model text_a text_b =
     (case generate E w judge_prompt judge_model (Some JUDGE_SYSTEM_PROMPT) 4000 (7 / 10) of
        ((success_judge, judge_response, usage, error_judge), w') \<Rightarrow>
          if \<not> success_judge then
            ((True,
              Some \<lparr>output_a = text_a, output_b = text_b, res_score_a = None, res_score_b = None,
                    judge_reasoning = Some (''Judge failed: '' @ fmt_opt error_judge)\<rparr>,
              None), w')
          else
            (case judge_response of
               None \<Rightarrow> ((False, None, Some no_strip_attribute), w')
             | Some reply \<Rightarrow>
                 (case parse_judge_response reply of
                    Inl e \<Rightarrow> ((False, None, Some (str_exn e)), w')
                  | Inr scores \<Rightarrow>
                      ((True,
                        Some \<lparr>output_a = text_a, output_b = text_b,
                              res_score_a = score_a scores, res_score_b = score_b scores,
                              judge_reasoning = reasoning scores\<rparr>,
                        None), w'))))"

definition run_transcription_benchmark ::
  "env \<Rightarrow> world \<Rightarrow> string \<Rightarrow> string \<Rightarrow> string \<Rightarrow> string \<Rightarrow> string \<Rightarrow> benchmark_return \<times> world" where
  "run_transcription_benchmark E w audio_path model_a model_b language judge_model =
     (case transcribe E w audio_path model_a language of
        ((success_a, text_a, error_a), w1) \<Rightarrow>
          (case transcribe E w1 audio_path model_b language of
             ((success_b, text_b, error_b), w2) \<Rightarrow>
               if \<not> success_a then
                 ((False, None,
                   Some (''Model A ('' @ model_a @ '') failed: '' @ fmt_opt error_a)), w2)
               else if \<not> success_b then
                 ((False, None,
                   Some (''Model B ('' @ model_b @ '') failed: '' @ fmt_opt error_b)), w2)
               else
                 (case text_a of
                    None \<Rightarrow> ((False, None, Some not_subscriptable), w2)
                  | Some ta \<Rightarrow>
                      (case text_b of
                         None \<Rightarrow> ((False, None, Some not_subscriptable), w2)
                       | Some tb \<Rightarrow>
                           judge_outputs E w2
                             (TRANSCRIPTION_JUDGE_PROMPT model_a model_b
                                (take 3000 ta) (take 3000 tb))
                             judge_model ta tb))))"

definition run_llm_benchmark ::
  "env \<Rightarrow> world \<Rightarrow> string \<Rightarrow> string \<Rightarrow> string \<Rightarrow> string \<Rightarrow> string \<Rightarrow> benchmark_return \<times> world" where
  "run_llm_benchmark E w transcription prompt_type model_a model_b judge_model =
     (case build_prompt prompt_type transcription None None None of
        (system_prompt, user_prompt) \<Rightarrow>
          (case generate E w user_prompt model_a (Some system_prompt) 4000 (7 / 10) of
             ((success_a, text_a, usage_a, error_a), w1) \<Rightarrow>
               (case generate E w1 user_prompt model_b (Some system_prompt) 4000 (7 / 10) of
                  ((success_b, text_b, usage_b, error_b), w2) \<Rightarrow>
                    if \<not> success_a then
                      ((False, None,
                        Some (''Model A ('' @ model_a @ '') failed: '' @ fmt_opt error_a)), w2)
                    else if \<not> success_b then
                      ((False, None,
                        Some (''Model B ('' @ model_b @ '') failed: '' @ fmt_opt error_b)), w2)
                    else
                      (case text_a of
                         None \<Rightarrow> ((False, None, Some not_subscriptable), w2)
                       | Some ta \<Rightarrow>
                           (case text_b of
                              None \<Rightarrow> ((False, None, Some not_subscriptable), w2)
                            | Some tb \<Rightarrow>
                                judge_outputs E w2
                                  (LLM_JUDGE_PROMPT prompt_type model_a model_b
                                     (take 3000 ta) (take 3000 tb))
                                  judge_model ta tb)))))"

section \<open>Notions used to state the properties of the parser\<close>

definition score_value_fails :: "string \<Rightarrow> bool" where
  \<comment> \<open>the value of a score line cannot be read: \<open>float(line.split(':')[1].strip())\<close> raises\<close>
  "score_value_fails line =
     (case index_opt (split_on (CHR '':'') line) 1 of
        None \<Rightarrow> True
      | Some v \<Rightarrow> py_float (strip v) = None)"

definition has_marker :: "string \<Rightarrow> bool" where
  "has_marker line \<longleftrightarrow>
     startswith line ''SCORE_A:'' \<or> startswith line ''SCORE_B:'' \<or>
     startswith line ''WINNER:'' \<or> startswith line ''REASONING:''"

definition reasoning_text :: "string \<Rightarrow> string" where
  \<comment> \<open>what follows the first colon of a line, stripped\<close>
  "reasoning_text line = strip (join '':'' (drop 1 (split_on (CHR '':'') line)))"

definition later_contribution :: "string \<Rightarrow> string list" where
  \<comment> \<open>what a stripped line adds to the reasoning once a \<open>REASONING:\<close> line has been seen\<close>
  "later_contribution line =
     (if startswith line ''SCORE_A:'' \<or> startswith line ''SCORE_B:'' \<or> startswith line ''WINNER:''
      then []
      else if startswith line ''REASONING:'' then
        (if reasoning_text line \<noteq> [] then [reasoning_text line] else [])
      else [line])"

section \<open>Notions used to state the properties of the adapters\<close>

definition tr_well_formed :: "tr_result \<Rightarrow> bool" where
  \<comment> \<open>a transcription result has its text exactly on success and its error exactly on failure\<close>
  "tr_well_formed r =
     (case r of (ok, t, e) \<Rightarrow> if ok then t \<noteq> None \<and> e = None else t = None \<and> e \<noteq> None)"

definition tr_success_well_formed :: "tr_result \<Rightarrow> bool" where
  \<comment> \<open>the weaker form: a failure has no text, but its error may be missing\<close>
  "tr_success_well_formed r =
     (case r of (ok, t, e) \<Rightarrow> if ok then t \<noteq> None \<and> e = None else t = None)"


definition gen_failure_well_formed :: "gen_result \<Rightarrow> bool" where
  \<comment> \<open>the weaker form: a success has no error, but its text may be missing\<close>
  "gen_failure_well_formed r =
     (case r of (ok, t, u, e) \<Rightarrow> if ok then e = None else t = None \<and> e \<noteq> None)"

definition gpu_related :: "string \<Rightarrow> bool" where
  \<comment> \<open>the test the loader applies to the message of a RuntimeError\<close>
  "gpu_related msg \<longleftrightarrow> contains (lower msg) ''gpu'' \<or> contains (lower msg) ''cuda''"

definition cache_miss :: "world \<Rightarrow> string \<Rightarrow> bool" where
  \<comment> \<open>\<open>_model is None or _model_size != model_size\<close>\<close>
  "cache_miss w model_size \<longleftrightarrow> g_model w = None \<or> g_model_size w \<noteq> Some model_size"




section \<open>Sample deployments\<close>

text \<open>
  A machine without cloud credentials, configured for the GPU.  Loading a Whisper model
  on CUDA fails with a driver error, loading on the CPU works; the local model hears
  \<open>Hello world.\<close> in every file; Ollama answers every request.
\<close>

definition sample_settings :: settings where
  "sample_settings =
     \<lparr>openai_api_key = None, google_application_credentials = None,
      google_gemini_api_key = None, ollama_host = ''http://localhost:11434/'',
      whisper_model_size = ''base'', whisper_device = ''gpu'', whisper_remote_url = None\<rparr>"

definition sample_env :: env where
  "sample_env =
     \<lparr>settings = sample_settings,
      file_exists = (\<lambda>h p. True),
      file_size = (\<lambda>h p. Inr 1000),
      read_file = (\<lambda>h p. Inr ''RIFF''),
      openai_installed = True,
      genai_installed = True,
      whisper_installed = True,
      speech_installed = False,
      openai_chat = (\<lambda>h r. Inr \<lparr>oa_choices = [], oa_usage = None\<rparr>),
      gemini_generate = (\<lambda>h r. Inl (OtherError ''quota exceeded'')),
      ollama_post = (\<lambda>h url r.
         Inr \<lparr>ol_status_code = 200,
              ol_json = Inr \<lparr>ol_response = Str (''Notes by '' @ ol_model r),
                              ol_prompt_eval_count = Some 12, ol_eval_count = Some 3\<rparr>\<rparr>),
      cuda_available = (\<lambda>h. True),
      whisper_load_model = (\<lambda>h model_size device.
         if device = ''cpu'' then Inr (WhisperModel model_size device)
         else Inl (RuntimeError ''CUDA out of memory'')),
      whisper_cache_dir = ''/root/.cache/whisper'',
      rmtree = (\<lambda>h p. None),
      whisper_transcribe = (\<lambda>h m p l. Inr (Some '' Hello world. '')),
      openai_transcribe = (\<lambda>h p l. Inl (OtherError ''unreachable'')),
      remote_post = (\<lambda>h url f. Inl (ConnectError ''connection refused'')),
      speech_client = (\<lambda>h. None),
      speech_recognize = (\<lambda>h long enc l c. Inr [])\<rparr>"

definition no_cuda_env :: env where
  \<comment> \<open>the same machine without CUDA\<close>
  "no_cuda_env = sample_env\<lparr>cuda_available := (\<lambda>h. False)\<rparr>"




definition null_env :: env where
  \<comment> \<open>the same machine with peers that answer with \<open>null\<close>: Ollama sends
      \<open>{"response": null}\<close>, the remote Whisper server \<open>{"success": false, "error": null}\<close>\<close>
  "null_env =
     sample_env\<lparr>settings := sample_settings\<lparr>whisper_remote_url := Some ''http://100.64.0.7:8001''\<rparr>,
                ollama_post := (\<lambda>h url r.
                   Inr \<lparr>ol_status_code = 200,
                        ol_json = Inr \<lparr>ol_response = Null, ol_prompt_eval_count = Some 12,
                                       ol_eval_count = Some 0\<rparr>\<rparr>),
                remote_post := (\<lambda>h url f.
                   Inr \<lparr>rh_status_code = 200, rh_text = [],
                        rh_json = Inr \<lparr>rj_success = False, rj_text = Absent,
                                       rj_error = Null\<rparr>\<rparr>)\<rparr>"

definition uninstalled_env :: env where
  \<comment> \<open>the same machine without the whisper package\<close>
  "uninstalled_env = sample_env\<lparr>whisper_installed := False\<rparr>"

definition base_loaded_world :: world where
  \<comment> \<open>the state of a process that has loaded the \<open>base\<close> model on the CPU\<close>
  "base_loaded_world =
     \<lparr>trace = [WhisperLoad ''base'' ''cpu''],
      g_model = Some (WhisperModel ''base'' ''cpu''), g_model_size = Some ''base''\<rparr>"

definition empty_world :: world where
  \<comment> \<open>the state of a process that has just started\<close>
  "empty_world = \<lparr>trace = [], g_model = None, g_model_size = None\<rparr>"

section \<open>The judge-response parser never raises\<close>

lemma split_on_nonempty: "split_on c s \<noteq> []"
  by (induction s) (auto split: list.splits)

lemma split_on_sep_length: "c \<in> set s \<Longrightarrow> 2 \<le> length (split_on c s)"
proof (induction s)
  case Nil
  then show ?case by simp
next
  case (Cons x xs)
  show ?case
  proof (cases "x = c")
    case True
    have "split_on c xs \<noteq> []" by (rule split_on_nonempty)
    then have "1 \<le> length (split_on c xs)" by (cases "split_on c xs") auto
    with True show ?thesis by simp
  next
    case False
    with Cons.prems have "c \<in> set xs" by auto
    then have "2 \<le> length (split_on c xs)" by (rule Cons.IH)
    with False show ?thesis by (auto split: list.splits)
  qed
qed

lemma startswith_mem: "startswith s p \<Longrightarrow> c \<in> set p \<Longrightarrow> c \<in> set s"
  unfolding startswith_def by (metis in_set_takeD)

lemma marker_has_value:
  assumes "startswith line p" and "CHR '':'' \<in> set p"
  shows "\<exists>v. index_opt (split_on (CHR '':'') line) 1 = Some v"
proof -
  from assms have "CHR '':'' \<in> set line" by (rule startswith_mem)
  then have "2 \<le> length (split_on (CHR '':'') line)" by (rule split_on_sep_length)
  then show ?thesis by (simp add: index_opt_def)
qed

lemma judge_step_total: "\<exists>st'. judge_step st raw = Inr st'"
proof (cases "startswith (strip raw) ''WINNER:''")
  case True
  then obtain v where "index_opt (split_on (CHR '':'') (strip raw)) 1 = Some v"
    using marker_has_value [of "strip raw" "''WINNER:''"] by auto
  then show ?thesis
    by (simp add: judge_step_def Let_def split: option.splits)
next
  case False
  then show ?thesis
    by (simp add: judge_step_def Let_def split: option.splits)
qed

lemma judge_loop_total: "\<exists>st'. judge_loop st ls = Inr st'"
proof (induction ls arbitrary: st)
  case Nil
  show ?case by simp
next
  case (Cons l ls)
  obtain st1 where "judge_step st l = Inr st1" using judge_step_total by blast
  with Cons.IH [of st1] show ?case by simp
qed

lemma parse_total: "\<exists>r. parse_judge_response response = Inr r"
proof -
  obtain st where "judge_loop judge_init (split_on (CHR 0x0A) (strip response)) = Inr st"
    using judge_loop_total by blast
  then show ?thesis by (simp add: parse_judge_response_def)
qed

lemma markers_distinct:
  "startswith l ''SCORE_B:'' \<Longrightarrow> \<not> startswith l ''SCORE_A:''"
  "startswith l ''REASONING:'' \<Longrightarrow> \<not> startswith l ''SCORE_A:''"
  "startswith l ''REASONING:'' \<Longrightarrow> \<not> startswith l ''SCORE_B:''"
  "startswith l ''REASONING:'' \<Longrightarrow> \<not> startswith l ''WINNER:''"
  unfolding startswith_def
  by (cases l; cases "tl l"; cases "tl (tl l)"; cases "tl (tl (tl l))"; cases "tl (tl (tl (tl l)))";
      cases "tl (tl (tl (tl (tl l))))"; cases "tl (tl (tl (tl (tl (tl l)))))"; auto)+

lemma judge_step_failed_score_a:
  "startswith (strip raw) ''SCORE_A:'' \<Longrightarrow> score_value_fails (strip raw) \<Longrightarrow> judge_step st raw = Inr st"
  by (simp add: judge_step_def score_value_fails_def Let_def split: option.splits)

lemma judge_step_failed_score_b:
  "startswith (strip raw) ''SCORE_B:'' \<Longrightarrow> score_value_fails (strip raw) \<Longrightarrow> judge_step st raw = Inr st"
  using markers_distinct(1) [of "strip raw"]
  by (simp add: judge_step_def score_value_fails_def Let_def split: option.splits)

lemma judge_step_keeps_score_a:
  assumes "judge_step st raw = Inr st'"
    and "startswith (strip raw) ''SCORE_A:'' \<Longrightarrow> score_value_fails (strip raw)"
    and "score_a (result st) = None"
  shows "score_a (result st') = None"
  using assms
  by (auto simp: judge_step_def score_value_fails_def Let_def split: option.splits if_splits)

lemma judge_step_keeps_score_b:
  assumes "judge_step st raw = Inr st'"
    and "startswith (strip raw) ''SCORE_B:'' \<Longrightarrow> score_value_fails (strip raw)"
    and "score_b (result st) = None"
  shows "score_b (result st') = None"
  using assms
  by (auto simp: judge_step_def score_value_fails_def Let_def split: option.splits if_splits)

lemma judge_loop_keeps_score_a:
  assumes "judge_loop st ls = Inr st'"
    and "\<forall>l \<in> set ls. startswith (strip l) ''SCORE_A:'' \<longrightarrow> score_value_fails (strip l)"
    and "score_a (result st) = None"
  shows "score_a (result st') = None"
  using assms
proof (induction ls arbitrary: st)
  case Nil
  then show ?case by simp
next
  case (Cons l ls)
  obtain st1 where s1: "judge_step st l = Inr st1" using judge_step_total by blast
  with Cons.prems have "score_a (result st1) = None"
    using judge_step_keeps_score_a [of st l st1] by simp
  moreover from s1 Cons.prems have "judge_loop st1 ls = Inr st'" by simp
  ultimately show ?case using Cons.IH [of st1] Cons.prems by simp
qed

lemma judge_loop_keeps_score_b:
  assumes "judge_loop st ls = Inr st'"
    and "\<forall>l \<in> set ls. startswith (strip l) ''SCORE_B:'' \<longrightarrow> score_value_fails (strip l)"
    and "score_b (result st) = None"
  shows "score_b (result st') = None"
  using assms
proof (induction ls arbitrary: st)
  case Nil
  then show ?case by simp
next
  case (Cons l ls)
  obtain st1 where s1: "judge_step st l = Inr st1" using judge_step_total by blast
  with Cons.prems have "score_b (result st1) = None"
    using judge_step_keeps_score_b [of st l st1] by simp
  moreover from s1 Cons.prems have "judge_loop st1 ls = Inr st'" by simp
  ultimately show ?case using Cons.IH [of st1] Cons.prems by simp
qed

lemma judge_step_no_marker:
  "\<not> has_marker (strip raw) \<Longrightarrow> \<not> in_reasoning st \<Longrightarrow> judge_step st raw = Inr st"
  by (simp add: judge_step_def has_marker_def Let_def)

lemma judge_loop_no_marker:
  "\<forall>l \<in> set ls. \<not> has_marker (strip l) \<Longrightarrow> \<not> in_reasoning st \<Longrightarrow> judge_loop st ls = Inr st"
  by (induction ls arbitrary: st) (simp_all add: judge_step_no_marker)

lemma parse_score_a_none:
  assumes "\<forall>l \<in> set (split_on (CHR 0x0A) (strip response)).
             startswith (strip l) ''SCORE_A:'' \<longrightarrow> score_value_fails (strip l)"
  shows "\<exists>r. parse_judge_response response = Inr r \<and> score_a r = None"
proof -
  obtain st where st: "judge_loop judge_init (split_on (CHR 0x0A) (strip response)) = Inr st"
    using judge_loop_total by blast
  have "score_a (result judge_init) = None" by (simp add: judge_init_def)
  with st assms have "score_a (result st) = None" by (rule judge_loop_keeps_score_a)
  with st show ?thesis by (simp add: parse_judge_response_def)
qed

lemma parse_score_b_none:
  assumes "\<forall>l \<in> set (split_on (CHR 0x0A) (strip response)).
             startswith (strip l) ''SCORE_B:'' \<longrightarrow> score_value_fails (strip l)"
  shows "\<exists>r. parse_judge_response response = Inr r \<and> score_b r = None"
proof -
  obtain st where st: "judge_loop judge_init (split_on (CHR 0x0A) (strip response)) = Inr st"
    using judge_loop_total by blast
  have "score_b (result judge_init) = None" by (simp add: judge_init_def)
  with st assms have "score_b (result st) = None" by (rule judge_loop_keeps_score_b)
  with st show ?thesis by (simp add: parse_judge_response_def)
qed

lemma parse_no_marker:
  assumes "\<forall>l \<in> set (split_on (CHR 0x0A) (strip response)). \<not> has_marker (strip l)"
  shows "parse_judge_response response =
           Inr \<lparr>score_a = None, score_b = None, winner = None, reasoning = None\<rparr>"
proof -
  have "\<not> in_reasoning judge_init" by (simp add: judge_init_def)
  with assms have "judge_loop judge_init (split_on (CHR 0x0A) (strip response)) = Inr judge_init"
    by (rule judge_loop_no_marker)
  then show ?thesis by (simp add: parse_judge_response_def judge_init_def)
qed

text \<open>
  Claim C5.  For every reply the parser returns a result and raises nothing.  A score
  line whose value cannot be read as a number changes nothing, so a reply in which no
  \<open>SCORE_A:\<close> line (no \<open>SCORE_B:\<close> line) has a readable value yields a null
  \<open>score_a\<close> (\<open>score_b\<close>).  A reply none of whose lines starts with one of the four
  markers yields four null fields.
\<close>

theorem parse_judge_response_tolerant:
  "(\<exists>r. parse_judge_response response = Inr r) \<and>
   (startswith (strip raw) ''SCORE_A:'' \<and> score_value_fails (strip raw)
      \<longrightarrow> judge_step st raw = Inr st) \<and>
   (startswith (strip raw) ''SCORE_B:'' \<and> score_value_fails (strip raw)
      \<longrightarrow> judge_step st raw = Inr st) \<and>
   ((\<forall>l \<in> set (split_on (CHR 0x0A) (strip response)).
        startswith (strip l) ''SCORE_A:'' \<longrightarrow> score_value_fails (strip l))
      \<longrightarrow> (\<exists>r. parse_judge_response response = Inr r \<and> score_a r = None)) \<and>
   ((\<forall>l \<in> set (split_on (CHR 0x0A) (strip response)).
        startswith (strip l) ''SCORE_B:'' \<longrightarrow> score_value_fails (strip l))
      \<longrightarrow> (\<exists>r. parse_judge_response response = Inr r \<and> score_b r = None)) \<and>
   ((\<forall>l \<in> set (split_on (CHR 0x0A) (strip response)). \<not> has_marker (strip l))
      \<longrightarrow> parse_judge_response response =
            Inr \<lparr>score_a = None, score_b = None, winner = None, reasoning = None\<rparr>)"
  using parse_total judge_step_failed_score_a judge_step_failed_score_b
    parse_score_a_none parse_score_b_none parse_no_marker
  by blast

theorem parse_judge_response_tolerant_witness:
  "startswith (strip ''SCORE_A: high'') ''SCORE_A:'' \<and> score_value_fails (strip ''SCORE_A: high'') \<and>
   judge_step judge_init ''SCORE_A: high'' = Inr judge_init \<and>
   startswith (strip ''SCORE_B: n/a'') ''SCORE_B:'' \<and> score_value_fails (strip ''SCORE_B: n/a'') \<and>
   judge_step judge_init ''SCORE_B: n/a'' = Inr judge_init \<and>
   (\<exists>r. parse_judge_response ''SCORE_A: high\<newline>SCORE_B: n/a\<newline>WINNER: A'' = Inr r \<and>
        score_a r = None \<and> score_b r = None) \<and>
   list_all (\<lambda>l. \<not> has_marker (strip l)) (split_on (CHR 0x0A) (strip ''The first one is better.'')) \<and>
   parse_judge_response ''The first one is better.'' =
     Inr \<lparr>score_a = None, score_b = None, winner = None, reasoning = None\<rparr>"
proof -
  have a: "startswith (strip ''SCORE_A: high'') ''SCORE_A:'' \<and> score_value_fails (strip ''SCORE_A: high'')"
    by code_simp
  have b: "startswith (strip ''SCORE_B: n/a'') ''SCORE_B:'' \<and> score_value_fails (strip ''SCORE_B: n/a'')"
    by code_simp
  have la: "\<forall>l \<in> set (split_on (CHR 0x0A) (strip ''SCORE_A: high\<newline>SCORE_B: n/a\<newline>WINNER: A'')).
          startswith (strip l) ''SCORE_A:'' \<longrightarrow> score_value_fails (strip l)"
    by code_simp
  have lb: "\<forall>l \<in> set (split_on (CHR 0x0A) (strip ''SCORE_A: high\<newline>SCORE_B: n/a\<newline>WINNER: A'')).
          startswith (strip l) ''SCORE_B:'' \<longrightarrow> score_value_fails (strip l)"
    by code_simp
  have n: "\<forall>l \<in> set (split_on (CHR 0x0A) (strip ''The first one is better.'')). \<not> has_marker (strip l)"
    by code_simp
  from a parse_judge_response_tolerant [of _ "''SCORE_A: high''" judge_init]
  have 1: "judge_step judge_init ''SCORE_A: high'' = Inr judge_init" by blast
  from b parse_judge_response_tolerant [of _ "''SCORE_B: n/a''" judge_init]
  have 2: "judge_step judge_init ''SCORE_B: n/a'' = Inr judge_init" by blast
  from la lb parse_judge_response_tolerant [of "''SCORE_A: high\<newline>SCORE_B: n/a\<newline>WINNER: A''"]
  have 3: "\<exists>r. parse_judge_response ''SCORE_A: high\<newline>SCORE_B: n/a\<newline>WINNER: A'' = Inr r \<and>
        score_a r = None \<and> score_b r = None" by fastforce
  from n parse_judge_response_tolerant [of "''The first one is better.''"]
  have 4: "parse_judge_response ''The first one is better.'' =
     Inr \<lparr>score_a = None, score_b = None, winner = None, reasoning = None\<rparr>" by blast
  from n have n': "list_all (\<lambda>l. \<not> has_marker (strip l))
                     (split_on (CHR 0x0A) (strip ''The first one is better.''))"
    by (simp only: list_all_iff)
  from a b 1 2 3 4 n' show ?thesis by blast
qed

lemma judge_loop_append:
  "judge_loop st (xs @ ys) =
     (case judge_loop st xs of Inl e \<Rightarrow> Inl e | Inr st' \<Rightarrow> judge_loop st' ys)"
  by (induction xs arbitrary: st) (auto split: sum.splits)

lemma judge_step_before_reasoning:
  assumes "\<not> startswith (strip raw) ''REASONING:''" and "\<not> in_reasoning st"
  shows "\<exists>st'. judge_step st raw = Inr st' \<and> \<not> in_reasoning st' \<and>
              reasoning_lines st' = reasoning_lines st"
proof -
  obtain st' where s: "judge_step st raw = Inr st'" using judge_step_total by blast
  with assms have "\<not> in_reasoning st' \<and> reasoning_lines st' = reasoning_lines st"
    by (auto simp: judge_step_def Let_def split: option.splits if_splits)
  with s show ?thesis by blast
qed

lemma judge_loop_before_reasoning:
  assumes "\<forall>p \<in> set ls. \<not> startswith (strip p) ''REASONING:''" and "\<not> in_reasoning st"
  shows "\<exists>st'. judge_loop st ls = Inr st' \<and> \<not> in_reasoning st' \<and>
              reasoning_lines st' = reasoning_lines st"
  using assms
proof (induction ls arbitrary: st)
  case Nil
  then show ?case by simp
next
  case (Cons l ls)
  then obtain st1 where s1: "judge_step st l = Inr st1" "\<not> in_reasoning st1"
      "reasoning_lines st1 = reasoning_lines st"
    using judge_step_before_reasoning [of l st] by auto
  with Cons.IH [of st1] Cons.prems show ?case by simp
qed

lemma judge_step_in_reasoning:
  assumes "in_reasoning st \<or> startswith (strip raw) ''REASONING:''"
  shows "\<exists>st'. judge_step st raw = Inr st' \<and> in_reasoning st' \<and>
              reasoning_lines st' = reasoning_lines st @ later_contribution (strip raw)"
proof -
  obtain st' where s: "judge_step st raw = Inr st'" using judge_step_total by blast
  with assms markers_distinct(2,3,4) [of "strip raw"]
  have "in_reasoning st' \<and>
        reasoning_lines st' = reasoning_lines st @ later_contribution (strip raw)"
    by (auto simp: judge_step_def later_contribution_def reasoning_text_def Let_def
             split: option.splits if_splits)
  with s show ?thesis by blast
qed

lemma judge_loop_in_reasoning:
  assumes "in_reasoning st"
  shows "\<exists>st'. judge_loop st ls = Inr st' \<and>
              reasoning_lines st' =
                reasoning_lines st @ concat (map (\<lambda>p. later_contribution (strip p)) ls)"
  using assms
proof (induction ls arbitrary: st)
  case Nil
  then show ?case by simp
next
  case (Cons l ls)
  then obtain st1 where s1: "judge_step st l = Inr st1" "in_reasoning st1"
      "reasoning_lines st1 = reasoning_lines st @ later_contribution (strip l)"
    using judge_step_in_reasoning [of st l] by auto
  with Cons.IH [of st1] show ?case by auto
qed

text \<open>
  Claim C7, as the code has it.  From the first \<open>REASONING:\<close> line on, the reasoning
  collects the text after the marker on that line and every later line, stripped,
  except that a later line starting with \<open>SCORE_A:\<close>, \<open>SCORE_B:\<close> or \<open>WINNER:\<close> is
  read as that field and left out, and a later \<open>REASONING:\<close> line gives only the text
  after its marker.  The pieces are joined by single blanks; nothing collected gives a null
  reasoning.
\<close>

theorem reasoning_collected:
  assumes "split_on (CHR 0x0A) (strip response) = pre @ l # post"
    and "\<forall>p \<in> set pre. \<not> startswith (strip p) ''REASONING:''"
    and "startswith (strip l) ''REASONING:''"
  shows "\<exists>r. parse_judge_response response = Inr r \<and>
             reasoning r =
               (let collected = concat (map (\<lambda>p. later_contribution (strip p)) (l # post))
                in if collected \<noteq> [] then Some (join '' '' collected) else None)"
proof -
  have "\<not> in_reasoning judge_init" by (simp add: judge_init_def)
  with assms(2) obtain st1 where s1: "judge_loop judge_init pre = Inr st1"
      "\<not> in_reasoning st1" "reasoning_lines st1 = reasoning_lines judge_init"
    using judge_loop_before_reasoning [of pre judge_init] by auto
  from assms(3) obtain st2 where s2: "judge_step st1 l = Inr st2" "in_reasoning st2"
      "reasoning_lines st2 = reasoning_lines st1 @ later_contribution (strip l)"
    using judge_step_in_reasoning [of st1 l] by auto
  from s2(2) obtain st3 where s3: "judge_loop st2 post = Inr st3"
      "reasoning_lines st3 =
         reasoning_lines st2 @ concat (map (\<lambda>p. later_contribution (strip p)) post)"
    using judge_loop_in_reasoning [of st2 post] by auto
  have loop: "judge_loop judge_init (split_on (CHR 0x0A) (strip response)) = Inr st3"
    using assms(1) s1(1) s2(1) s3(1) by (simp add: judge_loop_append)
  have "reasoning_lines st3 = concat (map (\<lambda>p. later_contribution (strip p)) (l # post))"
    using s1(3) s2(3) s3(2) by (simp add: judge_init_def)
  with loop show ?thesis by (simp add: parse_judge_response_def Let_def)
qed


theorem reasoning_collected_witness:
  "split_on (CHR 0x0A)
      (strip ''SCORE_A: 7\<newline>REASONING: A is short: good\<newline>but B is longer\<newline>WINNER: A\<newline>   overall fine  '')
     = [''SCORE_A: 7''] @ ''REASONING: A is short: good'' # [''but B is longer'', ''WINNER: A'', ''   overall fine''] \<and>
   list_all (\<lambda>p. \<not> startswith (strip p) ''REASONING:'') [''SCORE_A: 7''] \<and>
   startswith (strip ''REASONING: A is short: good'') ''REASONING:'' \<and>
   (\<exists>r. parse_judge_response
          ''SCORE_A: 7\<newline>REASONING: A is short: good\<newline>but B is longer\<newline>WINNER: A\<newline>   overall fine  '' = Inr r \<and>
        reasoning r = Some ''A is short: good but B is longer overall fine'')"
proof -
  have h1: "split_on (CHR 0x0A)
      (strip ''SCORE_A: 7\<newline>REASONING: A is short: good\<newline>but B is longer\<newline>WINNER: A\<newline>   overall fine  '')
     = [''SCORE_A: 7''] @ ''REASONING: A is short: good'' # [''but B is longer'', ''WINNER: A'', ''   overall fine'']"
    by code_simp
  have h2: "\<forall>p \<in> set [''SCORE_A: 7'']. \<not> startswith (strip p) ''REASONING:''"
    by code_simp
  have h3: "startswith (strip ''REASONING: A is short: good'') ''REASONING:''"
    by code_simp
  have v: "(let collected = concat (map (\<lambda>p. later_contribution (strip p))
                 (''REASONING: A is short: good'' # [''but B is longer'', ''WINNER: A'', ''   overall fine'']))
            in if collected \<noteq> [] then Some (join '' '' collected) else None)
           = Some ''A is short: good but B is longer overall fine''"
    by code_simp
  from h2 have h2': "list_all (\<lambda>p. \<not> startswith (strip p) ''REASONING:'') [''SCORE_A: 7'']"
    by (simp only: list_all_iff)
  from reasoning_collected [OF h1 h2 h3] v
  have "\<exists>r. parse_judge_response
          ''SCORE_A: 7\<newline>REASONING: A is short: good\<newline>but B is longer\<newline>WINNER: A\<newline>   overall fine  '' = Inr r \<and>
        reasoning r = Some ''A is short: good but B is longer overall fine''"
    by (simp only:)
  with h1 h2' h3 show ?thesis by blast
qed

text \<open>
  A line after \<open>REASONING:\<close> that starts with a marker is not part of the reasoning.
\<close>

theorem reasoning_skips_marker_lines_counterexample:
  "parse_judge_response ''REASONING: good\<newline>SCORE_A: 3'' =
     Inr \<lparr>score_a = Some (Finite 3), score_b = None, winner = None, reasoning = Some ''good''\<rparr>"
  by code_simp

text \<open>
  Claim C6.  The reply \<open>SCORE_A: 8\<close>, \<open>SCORE_B: 6\<close>, \<open>WINNER: A\<close>,
  \<open>REASONING: A was clearer.\<close> on four lines is parsed into the scores 8.0 and 6.0, the
  winner \<open>A\<close> and the reasoning \<open>A was clearer.\<close>
\<close>

theorem parse_judge_response_example:
  "parse_judge_response ''SCORE_A: 8\<newline>SCORE_B: 6\<newline>WINNER: A\<newline>REASONING: A was clearer.'' =
     Inr \<lparr>score_a = Some (Finite 8), score_b = Some (Finite 6), winner = Some ''A'',
          reasoning = Some ''A was clearer.''\<rparr>"
  by code_simp

section \<open>The parallel runner\<close>

lemma partition_paths_filter:
  "partition_paths audio_files video_files ps =
     (audio_files @ filter is_audio ps, video_files @ filter (\<lambda>p. \<not> is_audio p) ps)"
  by (induction ps arbitrary: audio_files video_files) auto

lemma gather_paths: "map res_path (fst (gather E w model language ps)) = ps"
proof (induction ps arbitrary: w)
  case Nil
  show ?case by simp
next
  case (Cons p ps)
  obtain r w1 where r: "process_file E w model language p = (r, w1)"
    by (cases "process_file E w model language p") auto
  then have rp: "res_path r = p"
    by (auto simp: process_file_def split: prod.splits)
  obtain rs w2 where rs: "gather E w1 model language ps = (rs, w2)"
    by (cases "gather E w1 model language ps") auto
  with Cons.IH [of w1] have "map res_path rs = ps" by simp
  with r rs rp show ?case by simp
qed

lemma sample_audio:
  "\<not> is_audio ''v.mp4''" "is_audio ''a.mp3''" "is_audio ''b.wav''"
  by code_simp+

text \<open>
  Claim C3.  With \<open>prioritize_audio\<close> set, the results come for the paths with an audio
  suffix first and for the other paths after them, each group in the caller's order.
  For \<open>v.mp4\<close>, \<open>a.mp3\<close>, \<open>b.wav\<close> the results are those of \<open>a.mp3\<close>, \<open>b.wav\<close>, \<open>v.mp4\<close>;
  no path gives no result.
\<close>

theorem transcribe_parallel_audio_first:
  "map res_path (fst (transcribe_parallel E w audio_paths model language True)) =
     filter is_audio audio_paths @ filter (\<lambda>p. \<not> is_audio p) audio_paths \<and>
   map res_path (fst (transcribe_parallel E w [''v.mp4'', ''a.mp3'', ''b.wav''] model language True)) =
     [''a.mp3'', ''b.wav'', ''v.mp4''] \<and>
   fst (transcribe_parallel E w [] model language True) = []"
proof -
  have order: "map res_path (fst (transcribe_parallel E w ps model language True)) =
                 filter is_audio ps @ filter (\<lambda>p. \<not> is_audio p) ps" for ps
    by (simp add: transcribe_parallel_def partition_paths_filter gather_paths del: gather.simps)
  have example: "filter is_audio [''v.mp4'', ''a.mp3'', ''b.wav''] @
                 filter (\<lambda>p. \<not> is_audio p) [''v.mp4'', ''a.mp3'', ''b.wav''] =
                 [''a.mp3'', ''b.wav'', ''v.mp4'']"
    by (simp add: sample_audio)
  have none: "fst (transcribe_parallel E w [] model language True) = []"
    by (simp add: transcribe_parallel_def)
  from order [of audio_paths] order [of "[''v.mp4'', ''a.mp3'', ''b.wav'']"] example none
  show ?thesis by (simp only:)
qed

section \<open>The dispatchers\<close>

text \<open>
  Claim C2.  A model identifier that is not in \<open>LLM_MODELS\<close> is handed to the Ollama
  adapter as the model name: the dispatcher returns what that adapter returns, and the
  one request it sends is a POST to Ollama whose \<open>model\<close> field is the identifier.
\<close>

theorem generate_unknown_model_goes_to_ollama:
  assumes "LLM_MODELS model = None"
  shows "generate E w prompt model system_prompt max_tokens temperature =
           generate_with_ollama E w prompt model system_prompt max_tokens temperature \<and>
         (\<exists>url request.
            trace (snd (generate E w prompt model system_prompt max_tokens temperature)) =
              trace w @ [OllamaPost url request] \<and> ol_model request = model)"
proof -
  have g: "generate E w prompt model system_prompt max_tokens temperature =
           generate_with_ollama E w prompt model system_prompt max_tokens temperature"
    using assms by (simp add: generate_def)
  have "\<exists>url request.
          trace (snd (generate_with_ollama E w prompt model system_prompt max_tokens temperature)) =
            trace w @ [OllamaPost url request] \<and> ol_model request = model"
    by (simp add: generate_with_ollama_def Let_def log_event_def split: sum.splits exn.splits)
  with g show ?thesis by simp
qed

theorem generate_unknown_model_goes_to_ollama_witness:
  "LLM_MODELS ''phi'' = None \<and>
   generate sample_env empty_world ''Hello'' ''phi'' None 4000 (7 / 10) =
     generate_with_ollama sample_env empty_world ''Hello'' ''phi'' None 4000 (7 / 10) \<and>
   fst (generate sample_env empty_world ''Hello'' ''phi'' None 4000 (7 / 10)) =
     (True, Some ''Notes by phi'', Some \<lparr>input_tokens = Some 12, output_tokens = Some 3\<rparr>, None)"
proof -
  have h: "LLM_MODELS ''phi'' = None" by code_simp
  have v: "fst (generate_with_ollama sample_env empty_world ''Hello'' ''phi'' None 4000 (7 / 10)) =
     (True, Some ''Notes by phi'', Some \<lparr>input_tokens = Some 12, output_tokens = Some 3\<rparr>, None)"
    by code_simp
  from generate_unknown_model_goes_to_ollama [OF h, of sample_env empty_world "''Hello''" None 4000 "7 / 10"]
    h v show ?thesis by simp
qed

text \<open>
  Claim C10.  A model identifier that is not in \<open>TRANSCRIPTION_MODELS\<close> makes
  \<open>transcribe\<close> fail with the error \<open>Unknown model: \<close> followed by the identifier; the
  state of the process is unchanged, no adapter having been called.
\<close>

theorem transcribe_unknown_model_fails:
  assumes "TRANSCRIPTION_MODELS model = None"
  shows "transcribe E w audio_path model language =
           ((False, None, Some (''Unknown model: '' @ model)), w)"
  using assms by (simp add: transcribe_def)

theorem transcribe_unknown_model_fails_witness:
  "TRANSCRIPTION_MODELS ''whisper-huge'' = None \<and>
   transcribe sample_env empty_world ''a.mp3'' ''whisper-huge'' ''en'' =
     ((False, None, Some ''Unknown model: whisper-huge''), empty_world)"
proof -
  have h: "TRANSCRIPTION_MODELS ''whisper-huge'' = None" by code_simp
  from transcribe_unknown_model_fails [OF h, of sample_env empty_world "''a.mp3''" "''en''"] h
  show ?thesis by simp
qed

section \<open>The shape of adapter results\<close>

lemma openai_shape:
  "gen_failure_well_formed
     (fst (generate_with_openai E w prompt model system_prompt max_tokens temperature))"
  by (simp add: generate_with_openai_def gen_failure_well_formed_def Let_def split: sum.splits)

lemma gemini_shape:
  "gen_failure_well_formed
     (fst (generate_with_gemini E w prompt model system_prompt max_tokens temperature))"
  by (simp add: generate_with_gemini_def gen_failure_well_formed_def Let_def split: sum.splits)

lemma ollama_shape:
  "gen_failure_well_formed
     (fst (generate_with_ollama E w prompt model system_prompt max_tokens temperature))"
  by (simp add: generate_with_ollama_def gen_failure_well_formed_def Let_def
           split: sum.splits exn.splits)


lemma whisper_local_shape:
  "tr_well_formed (fst (transcribe_with_whisper_local E w audio_path model_size language))"
  by (simp add: transcribe_with_whisper_local_def tr_well_formed_def Let_def
           split: sum.splits prod.splits)

lemma whisper_api_shape:
  "tr_well_formed (fst (transcribe_with_whisper_api E w audio_path language))"
  by (simp add: transcribe_with_whisper_api_def tr_well_formed_def Let_def split: sum.splits)


lemma remote_failure_weak_shape: "tr_success_well_formed (remote_failure e)"
  by (simp add: remote_failure_def tr_success_well_formed_def split: exn.splits)

lemma remote_exchange_shape: "tr_success_well_formed (fst (remote_exchange E w url form))"
  using remote_failure_weak_shape
  by (simp add: remote_exchange_def Let_def split: sum.splits option.splits)
     (simp add: tr_success_well_formed_def)


lemma whisper_remote_shape:
  "tr_success_well_formed
     (fst (transcribe_with_whisper_remote E w audio_path model_size language))"
  using remote_failure_weak_shape remote_exchange_shape
  by (simp add: transcribe_with_whisper_remote_def Let_def split: sum.splits option.splits)
     (simp add: tr_success_well_formed_def)




lemma google_stt_shape:
  "tr_well_formed (fst (transcribe_with_google_stt E w audio_path language))"
  by (simp add: transcribe_with_google_stt_def tr_well_formed_def Let_def
           split: sum.splits option.splits)




text \<open>
  What the two adapters that read a JSON body do with a \<open>null\<close>: an Ollama body with a
  \<open>null\<close> response gives a success without text, and a failure body of the remote
  Whisper server with a \<open>null\<close> error gives a failure without error.
\<close>

lemma ollama_null_response_example:
  "fst (generate_with_ollama null_env empty_world ''Hello'' ''phi'' None 4000 (7 / 10)) =
     (True, None, Some \<lparr>input_tokens = Some 12, output_tokens = Some 0\<rparr>, None)"
  by code_simp

lemma remote_null_error_example:
  "fst (transcribe_with_whisper_remote null_env empty_world ''a.mp3'' (Some ''base'')
          (Some ''en'')) = (False, None, None)"
  by code_simp

section \<open>The shape of dispatcher results\<close>

lemma generate_shape:
  "gen_failure_well_formed
     (fst (generate E w prompt model system_prompt max_tokens temperature))"
proof (cases "LLM_MODELS model")
  case None
  with ollama_shape [of E w prompt model system_prompt max_tokens temperature]
  show ?thesis by (simp add: generate_def)
next
  case (Some cfg)
  show ?thesis
    using Some openai_shape [of E w prompt "llm_model cfg" system_prompt max_tokens temperature]
      gemini_shape [of E w prompt "llm_model cfg" system_prompt max_tokens temperature]
      ollama_shape [of E w prompt "llm_model cfg" system_prompt max_tokens temperature]
    by (simp add: generate_def Let_def) (simp add: gen_failure_well_formed_def)
qed

lemma generate_failure_has_error:
  assumes "generate E w prompt model system_prompt max_tokens temperature =
             ((False, t, u, e), w')"
  shows "t = None \<and> (\<exists>detail. e = Some detail)"
  using generate_shape [of E w prompt model system_prompt max_tokens temperature] assms
  by (auto simp: gen_failure_well_formed_def)

lemma tr_well_formed_weaken: "tr_well_formed r \<Longrightarrow> tr_success_well_formed r"
  by (auto simp: tr_well_formed_def tr_success_well_formed_def split: prod.splits if_splits)

lemma transcribe_shape:
  "tr_success_well_formed (fst (transcribe E w audio_path model language))"
proof (cases "TRANSCRIPTION_MODELS model")
  case None
  then show ?thesis by (simp add: transcribe_def tr_success_well_formed_def)
next
  case (Some cfg)
  then show ?thesis
    using whisper_local_shape [THEN tr_well_formed_weaken] whisper_remote_shape
      whisper_api_shape [THEN tr_well_formed_weaken] google_stt_shape [THEN tr_well_formed_weaken]
    by (simp add: transcribe_def Let_def) (simp add: tr_success_well_formed_def)
qed

lemma transcribe_success_has_text:
  assumes "transcribe E w audio_path model language = ((True, t, e), w')"
  shows "(\<exists>txt. t = Some txt) \<and> e = None"
  using transcribe_shape [of E w audio_path model language] assms
  by (auto simp: tr_success_well_formed_def)

section \<open>Benchmarks whose judge fails\<close>

lemma judge_outputs_judge_failed:
  assumes "generate E w judge_prompt judge_model (Some JUDGE_SYSTEM_PROMPT) 4000 (7 / 10) =
             ((False, t, u, e), w')"
  shows "\<exists>detail. e = Some detail \<and>
           judge_outputs E w judge_prompt judge_model text_a text_b =
             ((True,
               Some \<lparr>output_a = text_a, output_b = text_b, res_score_a = None,
                     res_score_b = None,
                     judge_reasoning = Some (''Judge failed: '' @ detail)\<rparr>,
               None), w')"
proof -
  from assms obtain detail where d: "e = Some detail"
    using generate_failure_has_error by blast
  with assms show ?thesis by (simp add: judge_outputs_def fmt_opt_def)
qed

text \<open>
  Claim C4.  When both model calls of a benchmark succeed and the judge call, made with
  the prompt built from their two outputs, fails, the benchmark succeeds: it returns
  both outputs in full, null scores, and the reasoning \<open>Judge failed: \<close> followed by the
  judge's error.  This holds for the transcription benchmark and for the LLM benchmark.
\<close>

theorem benchmark_survives_judge_failure:
  "(transcribe E w audio_path model_a language = ((True, Some text_a, error_a), w1) \<and>
    transcribe E w1 audio_path model_b language = ((True, Some text_b, error_b), w2) \<and>
    generate E w2
      (TRANSCRIPTION_JUDGE_PROMPT model_a model_b (take 3000 text_a) (take 3000 text_b))
      judge_model (Some JUDGE_SYSTEM_PROMPT) 4000 (7 / 10) =
      ((False, judge_response, usage, error_judge), w3)
    \<longrightarrow> (\<exists>detail. error_judge = Some detail \<and>
           run_transcription_benchmark E w audio_path model_a model_b language judge_model =
             ((True,
               Some \<lparr>output_a = text_a, output_b = text_b, res_score_a = None,
                     res_score_b = None,
                     judge_reasoning = Some (''Judge failed: '' @ detail)\<rparr>,
               None), w3))) \<and>
   (generate E v (snd (build_prompt prompt_type transcription None None None)) model_c
      (Some (fst (build_prompt prompt_type transcription None None None))) 4000 (7 / 10) =
      ((True, Some out_c, usage_c, error_c), v1) \<and>
    generate E v1 (snd (build_prompt prompt_type transcription None None None)) model_d
      (Some (fst (build_prompt prompt_type transcription None None None))) 4000 (7 / 10) =
      ((True, Some out_d, usage_d, error_d), v2) \<and>
    generate E v2
      (LLM_JUDGE_PROMPT prompt_type model_c model_d (take 3000 out_c) (take 3000 out_d))
      judge_model' (Some JUDGE_SYSTEM_PROMPT) 4000 (7 / 10) =
      ((False, judge_response', usage', error_judge'), v3)
    \<longrightarrow> (\<exists>detail. error_judge' = Some detail \<and>
           run_llm_benchmark E v transcription prompt_type model_c model_d judge_model' =
             ((True,
               Some \<lparr>output_a = out_c, output_b = out_d, res_score_a = None,
                     res_score_b = None,
                     judge_reasoning = Some (''Judge failed: '' @ detail)\<rparr>,
               None), v3)))"
proof (intro conjI impI)
  assume a: "transcribe E w audio_path model_a language = ((True, Some text_a, error_a), w1) \<and>
    transcribe E w1 audio_path model_b language = ((True, Some text_b, error_b), w2) \<and>
    generate E w2
      (TRANSCRIPTION_JUDGE_PROMPT model_a model_b (take 3000 text_a) (take 3000 text_b))
      judge_model (Some JUDGE_SYSTEM_PROMPT) 4000 (7 / 10) =
      ((False, judge_response, usage, error_judge), w3)"
  then obtain detail where d: "error_judge = Some detail"
    "judge_outputs E w2
       (TRANSCRIPTION_JUDGE_PROMPT model_a model_b (take 3000 text_a) (take 3000 text_b))
       judge_model text_a text_b =
     ((True,
       Some \<lparr>output_a = text_a, output_b = text_b, res_score_a = None, res_score_b = None,
             judge_reasoning = Some (''Judge failed: '' @ detail)\<rparr>,
       None), w3)"
    using judge_outputs_judge_failed by blast
  with a show "\<exists>detail. error_judge = Some detail \<and>
           run_transcription_benchmark E w audio_path model_a model_b language judge_model =
             ((True,
               Some \<lparr>output_a = text_a, output_b = text_b, res_score_a = None,
                     res_score_b = None,
                     judge_reasoning = Some (''Judge failed: '' @ detail)\<rparr>,
               None), w3)"
    by (simp add: run_transcription_benchmark_def)
next
  assume a: "generate E v (snd (build_prompt prompt_type transcription None None None)) model_c
      (Some (fst (build_prompt prompt_type transcription None None None))) 4000 (7 / 10) =
      ((True, Some out_c, usage_c, error_c), v1) \<and>
    generate E v1 (snd (build_prompt prompt_type transcription None None None)) model_d
      (Some (fst (build_prompt prompt_type transcription None None None))) 4000 (7 / 10) =
      ((True, Some out_d, usage_d, error_d), v2) \<and>
    generate E v2
      (LLM_JUDGE_PROMPT prompt_type model_c model_d (take 3000 out_c) (take 3000 out_d))
      judge_model' (Some JUDGE_SYSTEM_PROMPT) 4000 (7 / 10) =
      ((False, judge_response', usage', error_judge'), v3)"
  then obtain detail where d: "error_judge' = Some detail"
    "judge_outputs E v2
       (LLM_JUDGE_PROMPT prompt_type model_c model_d (take 3000 out_c) (take 3000 out_d))
       judge_model' out_c out_d =
     ((True,
       Some \<lparr>output_a = out_c, output_b = out_d, res_score_a = None, res_score_b = None,
             judge_reasoning = Some (''Judge failed: '' @ detail)\<rparr>,
       None), v3)"
    using judge_outputs_judge_failed by blast
  with a show "\<exists>detail. error_judge' = Some detail \<and>
           run_llm_benchmark E v transcription prompt_type model_c model_d judge_model' =
             ((True,
               Some \<lparr>output_a = out_c, output_b = out_d, res_score_a = None,
                     res_score_b = None,
                     judge_reasoning = Some (''Judge failed: '' @ detail)\<rparr>,
               None), v3)"
    by (simp add: run_llm_benchmark_def case_prod_unfold)
qed

section \<open>The sample deployment at work\<close>

lemma sample_gemini_unconfigured:
  "generate sample_env w p ''gemini-pro'' sp max_tokens temperature =
     ((False, None, None, Some ''Google Gemini API key not configured''), w)"
  by (simp add: generate_def LLM_MODELS_def generate_with_gemini_def sample_env_def
        sample_settings_def truthy_def)

lemma sample_ollama_llama2:
  "\<exists>w'. generate sample_env w p ''llama2'' sp max_tokens temperature =
     ((True, Some ''Notes by llama2'',
       Some \<lparr>input_tokens = Some 12, output_tokens = Some 3\<rparr>, None), w')"
  by (simp add: generate_def LLM_MODELS_def generate_with_ollama_def sample_env_def get_str_def
        Let_def)

lemma sample_ollama_mistral:
  "\<exists>w'. generate sample_env w p ''mistral'' sp max_tokens temperature =
     ((True, Some ''Notes by mistral'',
       Some \<lparr>input_tokens = Some 12, output_tokens = Some 3\<rparr>, None), w')"
  by (simp add: generate_def LLM_MODELS_def generate_with_ollama_def sample_env_def get_str_def
        Let_def)

lemma sample_message_gpu_related: "gpu_related ''CUDA out of memory''"
  by code_simp

lemma sample_heard: "strip '' Hello world. '' = ''Hello world.''"
  by code_simp

lemma sample_retry_on_cpu:
  "retry_on_cpu sample_env w1 model_size =
     (Inr (WhisperModel model_size ''cpu''),
      (log_event (WhisperLoad model_size ''cpu'')
         (log_event (RmTree ''/root/.cache/whisper'') w1))
        \<lparr>g_model := Some (WhisperModel model_size ''cpu''), g_model_size := Some model_size\<rparr>)"
  by (simp add: retry_on_cpu_def sample_env_def Let_def)

lemma sample_load_fresh:
  "load_fresh sample_env w model_size =
     (Inr (WhisperModel model_size ''cpu''),
      (log_event (WhisperLoad model_size ''cpu'')
         (log_event (RmTree ''/root/.cache/whisper'')
            (log_event (WhisperLoad model_size ''cuda'') w)))
        \<lparr>g_model := Some (WhisperModel model_size ''cpu''), g_model_size := Some model_size\<rparr>)"
proof -
  have dev: "choose_device sample_env w = ''cuda''"
    by (simp add: choose_device_def sample_env_def sample_settings_def)
  have first: "whisper_load_model sample_env (trace w) model_size ''cuda'' =
                 Inl (RuntimeError ''CUDA out of memory'')"
    by (simp add: sample_env_def)
  have inst: "whisper_installed sample_env" by (simp add: sample_env_def)
  show ?thesis
    using sample_message_gpu_related
    by (simp add: load_fresh_def dev first inst gpu_related_def sample_retry_on_cpu)
qed

lemma sample_load:
  "\<exists>m w'. load_whisper_model sample_env w (Some model_size) = (Inr m, w')"
  by (simp add: load_whisper_model_def sample_load_fresh split: option.splits)

lemma sample_transcribe_local:
  "\<exists>w'. transcribe_with_whisper_local sample_env w audio_path (Some model_size) (Some ''en'') =
     ((True, Some ''Hello world.'', None), w')"
proof -
  obtain m w1 where l: "load_whisper_model sample_env w (Some model_size) = (Inr m, w1)"
    using sample_load by blast
  have ex: "file_exists sample_env (trace w) audio_path" by (simp add: sample_env_def)
  have tr: "whisper_transcribe sample_env h m audio_path l = Inr (Some '' Hello world. '')" for h l
    by (simp add: sample_env_def)
  show ?thesis
    by (simp add: transcribe_with_whisper_local_def ex l tr sample_heard Let_def)
qed

lemma sample_transcribe_base:
  "\<exists>w'. transcribe sample_env w audio_path ''whisper-base'' ''en'' =
     ((True, Some ''Hello world.'', None), w')"
  using sample_transcribe_local [of w audio_path "''base''"]
  by (simp add: transcribe_def TRANSCRIPTION_MODELS_def)

lemma sample_transcribe_tiny:
  "\<exists>w'. transcribe sample_env w audio_path ''whisper-tiny'' ''en'' =
     ((True, Some ''Hello world.'', None), w')"
  using sample_transcribe_local [of w audio_path "''tiny''"]
  by (simp add: transcribe_def TRANSCRIPTION_MODELS_def)

theorem benchmark_survives_judge_failure_witness:
  "fst (run_transcription_benchmark sample_env empty_world ''a.mp3'' ''whisper-base''
          ''whisper-tiny'' ''en'' ''gemini-pro'') =
     (True,
      Some \<lparr>output_a = ''Hello world.'', output_b = ''Hello world.'', res_score_a = None,
            res_score_b = None,
            judge_reasoning = Some ''Judge failed: Google Gemini API key not configured''\<rparr>,
      None) \<and>
   fst (run_llm_benchmark sample_env empty_world ''We met on Monday.'' ''summary''
          ''llama2'' ''mistral'' ''gemini-pro'') =
     (True,
      Some \<lparr>output_a = ''Notes by llama2'', output_b = ''Notes by mistral'', res_score_a = None,
            res_score_b = None,
            judge_reasoning = Some ''Judge failed: Google Gemini API key not configured''\<rparr>,
      None)"
proof -
  obtain w1 where h1: "transcribe sample_env empty_world ''a.mp3'' ''whisper-base'' ''en'' =
              ((True, Some ''Hello world.'', None), w1)"
    using sample_transcribe_base by blast
  obtain w2 where h2: "transcribe sample_env w1 ''a.mp3'' ''whisper-tiny'' ''en'' =
              ((True, Some ''Hello world.'', None), w2)"
    using sample_transcribe_tiny by blast
  have h3: "generate sample_env w2
      (TRANSCRIPTION_JUDGE_PROMPT ''whisper-base'' ''whisper-tiny''
         (take 3000 ''Hello world.'') (take 3000 ''Hello world.''))
      ''gemini-pro'' (Some JUDGE_SYSTEM_PROMPT) 4000 (7 / 10) =
      ((False, None, None, Some ''Google Gemini API key not configured''), w2)"
    by (rule sample_gemini_unconfigured)
  obtain v1 where g1: "generate sample_env empty_world
      (snd (build_prompt ''summary'' ''We met on Monday.'' None None None)) ''llama2''
      (Some (fst (build_prompt ''summary'' ''We met on Monday.'' None None None))) 4000 (7 / 10) =
      ((True, Some ''Notes by llama2'',
        Some \<lparr>input_tokens = Some 12, output_tokens = Some 3\<rparr>, None), v1)"
    using sample_ollama_llama2 by blast
  obtain v2 where g2: "generate sample_env v1
      (snd (build_prompt ''summary'' ''We met on Monday.'' None None None)) ''mistral''
      (Some (fst (build_prompt ''summary'' ''We met on Monday.'' None None None))) 4000 (7 / 10) =
      ((True, Some ''Notes by mistral'',
        Some \<lparr>input_tokens = Some 12, output_tokens = Some 3\<rparr>, None), v2)"
    using sample_ollama_mistral by blast
  have g3: "generate sample_env v2
      (LLM_JUDGE_PROMPT ''summary'' ''llama2'' ''mistral''
         (take 3000 ''Notes by llama2'') (take 3000 ''Notes by mistral''))
      ''gemini-pro'' (Some JUDGE_SYSTEM_PROMPT) 4000 (7 / 10) =
      ((False, None, None, Some ''Google Gemini API key not configured''), v2)"
    by (rule sample_gemini_unconfigured)
  from benchmark_survives_judge_failure
         [THEN conjunct1, rule_format, OF conjI [OF h1 conjI [OF h2 h3]]]
  have t: "run_transcription_benchmark sample_env empty_world ''a.mp3''
       ''whisper-base'' ''whisper-tiny'' ''en'' ''gemini-pro'' =
     ((True,
      Some \<lparr>output_a = ''Hello world.'', output_b = ''Hello world.'', res_score_a = None,
            res_score_b = None,
            judge_reasoning = Some (''Judge failed: '' @ ''Google Gemini API key not configured'')\<rparr>,
      None), w2)"
    by blast
  from benchmark_survives_judge_failure
         [THEN conjunct2, rule_format, OF conjI [OF g1 conjI [OF g2 g3]]]
  have l: "run_llm_benchmark sample_env empty_world ''We met on Monday.''
       ''summary'' ''llama2'' ''mistral'' ''gemini-pro'' =
     ((True,
      Some \<lparr>output_a = ''Notes by llama2'', output_b = ''Notes by mistral'', res_score_a = None,
            res_score_b = None,
            judge_reasoning = Some (''Judge failed: '' @ ''Google Gemini API key not configured'')\<rparr>,
      None), v2)"
    by blast
  from t l show ?thesis by simp
qed

section \<open>Loading the local model\<close>









section \<open>The cache of the local model\<close>

lemma load_fresh_slot:
  "(case load_fresh E w model_size of
      (Inr m, w') \<Rightarrow> g_model w' = Some m \<and> g_model_size w' = Some model_size
    | (Inl e, w') \<Rightarrow> g_model w' = g_model w \<and> g_model_size w' = g_model_size w)"
  by (simp add: load_fresh_def retry_on_cpu_def log_event_def Let_def
           split: sum.splits exn.splits option.splits)

lemma load_slot_success:
  assumes "load_whisper_model E w (Some model_size) = (Inr m, w')"
  shows "g_model w' = Some m \<and> g_model_size w' = Some model_size"
proof (cases "cache_miss w model_size")
  case True
  then have "load_whisper_model E w (Some model_size) = load_fresh E w model_size"
    by (auto simp: load_whisper_model_def cache_miss_def split: option.splits)
  with assms load_fresh_slot [where E = E and w = w and model_size = model_size] show ?thesis by simp
next
  case False
  with assms show ?thesis
    by (auto simp: load_whisper_model_def cache_miss_def split: option.splits)
qed

lemma load_slot_failure:
  assumes "load_whisper_model E w (Some model_size) = (Inl e, w')"
  shows "g_model w' = g_model w \<and> g_model_size w' = g_model_size w"
proof (cases "cache_miss w model_size")
  case True
  then have "load_whisper_model E w (Some model_size) = load_fresh E w model_size"
    by (auto simp: load_whisper_model_def cache_miss_def split: option.splits)
  with assms load_fresh_slot [where E = E and w = w and model_size = model_size] show ?thesis by simp
next
  case False
  with assms show ?thesis
    by (auto simp: load_whisper_model_def cache_miss_def split: option.splits)
qed

text \<open>
  Claim C9, as the code has it.  The cache of the local adapter is one slot for the whole
  process, keyed by the model size alone.  A call for the size held in the slot returns
  the held model and loads nothing; a successful load puts its model and size into the
  slot, replacing what was held; a failed load leaves the slot as it was; and a call for
  a size other than the one held loads afresh.
\<close>

theorem whisper_cache_single_slot:
  "((g_model w = Some m \<and> g_model_size w = Some model_size)
      \<longrightarrow> load_whisper_model E w (Some model_size) = (Inr m, w)) \<and>
   (load_whisper_model E w (Some model_size) = (Inr m, w')
      \<longrightarrow> g_model w' = Some m \<and> g_model_size w' = Some model_size) \<and>
   (load_whisper_model E w (Some model_size) = (Inl e, w')
      \<longrightarrow> g_model w' = g_model w \<and> g_model_size w' = g_model_size w) \<and>
   (g_model_size w \<noteq> Some model_size
      \<longrightarrow> load_whisper_model E w (Some model_size) = load_fresh E w model_size)"
proof (intro conjI impI)
  assume "g_model w = Some m \<and> g_model_size w = Some model_size"
  then show "load_whisper_model E w (Some model_size) = (Inr m, w)"
    by (simp add: load_whisper_model_def)
next
  assume "load_whisper_model E w (Some model_size) = (Inr m, w')"
  then show "g_model w' = Some m" "g_model_size w' = Some model_size"
    using load_slot_success by blast+
next
  assume "load_whisper_model E w (Some model_size) = (Inl e, w')"
  then show "g_model w' = g_model w" "g_model_size w' = g_model_size w"
    using load_slot_failure by blast+
next
  assume "g_model_size w \<noteq> Some model_size"
  then show "load_whisper_model E w (Some model_size) = load_fresh E w model_size"
    by (simp add: load_whisper_model_def split: option.splits)
qed

theorem whisper_cache_single_slot_witness:
  "load_whisper_model no_cuda_env base_loaded_world (Some ''base'') =
     (Inr (WhisperModel ''base'' ''cpu''), base_loaded_world) \<and>
   load_whisper_model no_cuda_env empty_world (Some ''base'') =
     (Inr (WhisperModel ''base'' ''cpu''), base_loaded_world) \<and>
   g_model base_loaded_world = Some (WhisperModel ''base'' ''cpu'') \<and>
   g_model_size base_loaded_world = Some ''base'' \<and>
   load_whisper_model uninstalled_env base_loaded_world (Some ''small'') =
     (Inl (RuntimeError ''Whisper is not installed. Run: pip install openai-whisper''),
      base_loaded_world) \<and>
   load_whisper_model no_cuda_env base_loaded_world (Some ''small'') =
     load_fresh no_cuda_env base_loaded_world ''small''"
proof -
  have held: "g_model base_loaded_world = Some (WhisperModel ''base'' ''cpu'') \<and>
              g_model_size base_loaded_world = Some ''base''"
    by (simp add: base_loaded_world_def)
  have loaded: "load_whisper_model no_cuda_env empty_world (Some ''base'') =
                  (Inr (WhisperModel ''base'' ''cpu''), base_loaded_world)"
    by code_simp
  have failed: "load_whisper_model uninstalled_env base_loaded_world (Some ''small'') =
     (Inl (RuntimeError ''Whisper is not installed. Run: pip install openai-whisper''),
      base_loaded_world)"
    by code_simp
  have other: "g_model_size base_loaded_world \<noteq> Some ''small''"
    by (simp add: base_loaded_world_def)
  from held whisper_cache_single_slot
         [of base_loaded_world "WhisperModel ''base'' ''cpu''" "''base''" no_cuda_env]
  have a: "load_whisper_model no_cuda_env base_loaded_world (Some ''base'') =
             (Inr (WhisperModel ''base'' ''cpu''), base_loaded_world)"
    by blast
  from loaded whisper_cache_single_slot
         [of empty_world "WhisperModel ''base'' ''cpu''" "''base''" no_cuda_env base_loaded_world]
  have b: "g_model base_loaded_world = Some (WhisperModel ''base'' ''cpu'') \<and>
           g_model_size base_loaded_world = Some ''base''"
    by blast
  from other whisper_cache_single_slot
         [of base_loaded_world _ "''small''" no_cuda_env]
  have d: "load_whisper_model no_cuda_env base_loaded_world (Some ''small'') =
             load_fresh no_cuda_env base_loaded_world ''small''"
    by blast
  from failed whisper_cache_single_slot
         [of base_loaded_world _ "''small''" uninstalled_env base_loaded_world
             "RuntimeError ''Whisper is not installed. Run: pip install openai-whisper''"]
  have c: "g_model base_loaded_world = g_model base_loaded_world" by blast
  from a b loaded failed d show ?thesis by blast
qed

text \<open>
  Loading \<open>base\<close>, then \<open>small\<close>, then \<open>base\<close> again loads three times: after the second
  call the slot holds the \<open>small\<close> model only, the \<open>base\<close> model having been dropped.
\<close>

theorem whisper_cache_evicts_counterexample:
  "g_model (snd (load_whisper_model no_cuda_env
                   (snd (load_whisper_model no_cuda_env empty_world (Some ''base'')))
                   (Some ''small''))) = Some (WhisperModel ''small'' ''cpu'') \<and>
   trace (snd (load_whisper_model no_cuda_env
                 (snd (load_whisper_model no_cuda_env
                         (snd (load_whisper_model no_cuda_env empty_world (Some ''base'')))
                         (Some ''small'')))
                 (Some ''base''))) =
     [WhisperLoad ''base'' ''cpu'', WhisperLoad ''small'' ''cpu'', WhisperLoad ''base'' ''cpu'']"
  by code_simp

end
